theory Spec2Isabelle
  imports Complex_Main "HOL-Library.Word" "HOL-Library.AList" "HOL-Library.Sublist"
begin

unbundle bit_operations_syntax

section \<open>Host values\<close>

text \<open>
  A JavaScript number is NaN, one of the two infinities, negative zero, or a finite value.
  Every finite double is a rational, so \<open>Fin r\<close> carries the exact value; \<open>Fin 0\<close> is
  positive zero.  Rounding is not modelled: the functions below only compare a number
  with zero and with the infinities.
\<close>

datatype jsnum = NaN | PosInf | NegInf | NegZero | Fin rat

datatype jsval = JNum jsnum | JStr string | JBool bool

text \<open>\<open>number < 0\<close> and \<open>number > 0\<close>: both are false on NaN and on either zero.\<close>

fun js_lt_zero :: "jsnum \<Rightarrow> bool" where
  "js_lt_zero NegInf = True"
| "js_lt_zero (Fin r) = (r < 0)"
| "js_lt_zero _ = False"

fun js_gt_zero :: "jsnum \<Rightarrow> bool" where
  "js_gt_zero PosInf = True"
| "js_gt_zero (Fin r) = (0 < r)"
| "js_gt_zero _ = False"

text \<open>Truthiness of a number: everything but \<open>0\<close>, \<open>-0\<close> and \<open>NaN\<close>.\<close>

fun js_truthy_num :: "jsnum \<Rightarrow> bool" where
  "js_truthy_num NaN = False"
| "js_truthy_num NegZero = False"
| "js_truthy_num (Fin r) = (r \<noteq> 0)"
| "js_truthy_num _ = True"

text \<open>\<open>n !== 0\<close>: strict inequality with zero; NaN differs from everything, \<open>-0 === 0\<close>.\<close>

fun js_strict_ne_zero :: "jsnum \<Rightarrow> bool" where
  "js_strict_ne_zero NegZero = False"
| "js_strict_ne_zero (Fin r) = (r \<noteq> 0)"
| "js_strict_ne_zero _ = True"

text \<open>
  The host's coercions between strings and numbers (unary plus on a string,
  \<open>Number.prototype.toString\<close>) and \<open>String.prototype.trim\<close> belong to the language, not
  to the repository; they are parameters of the model.
\<close>

record host =
  stringToNumber :: "string \<Rightarrow> jsnum"
  numberToString :: "jsnum \<Rightarrow> string"
  trimString :: "string \<Rightarrow> string"

text \<open>Unary plus, \<open>+value\<close>.\<close>

fun toNumber :: "host \<Rightarrow> jsval \<Rightarrow> jsnum" where
  "toNumber h (JNum n) = n"
| "toNumber h (JBool b) = (if b then Fin 1 else Fin 0)"
| "toNumber h (JStr s) = stringToNumber h s"

text \<open>\<open>value.toString()\<close> and \<open>value + ''\<close>.\<close>

fun valueToString :: "host \<Rightarrow> jsval \<Rightarrow> string" where
  "valueToString h (JNum n) = numberToString h n"
| "valueToString h (JBool b) = (if b then ''true'' else ''false'')"
| "valueToString h (JStr s) = s"

text \<open>
  Modelled from the spec: \<open>Cast.toBoolean\<close> of \<open>src/util/cast.js\<close>, which is not among the
  sources: host truthiness, with the strings \<open>""\<close>, \<open>"0"\<close> and \<open>"false"\<close> mapped to false.
\<close>

fun toBoolean :: "jsval \<Rightarrow> bool" where
  "toBoolean (JBool b) = b"
| "toBoolean (JStr s) = (s \<noteq> '''' \<and> s \<noteq> ''0'' \<and> s \<noteq> ''false'')"
| "toBoolean (JNum n) = js_truthy_num n"

text \<open>
  A concrete host for closed examples.  It reads a non-empty string of ASCII digits as
  the integer it denotes and the empty string as 0, and prints a natural number in
  decimal; on these inputs it agrees with JavaScript.  Every other string is read as NaN,
  which is what JavaScript does for a word of letters such as \<open>abc\<close>.  Its \<open>trim\<close> drops
  leading blanks, which is all \<open>trim\<close> does to a string that ends in a digit or letter.
\<close>

definition is_digit :: "char \<Rightarrow> bool" where
  "is_digit c = (48 \<le> (of_char c :: nat) \<and> (of_char c :: nat) \<le> 57)"

definition digits_value :: "string \<Rightarrow> nat" where
  "digits_value s = foldl (\<lambda>acc c. 10 * acc + (of_char c - 48)) 0 s"

definition digitsToNumber :: "string \<Rightarrow> jsnum" where
  "digitsToNumber s = (if list_all is_digit s then Fin (of_nat (digits_value s)) else NaN)"

fun natToDigits :: "nat \<Rightarrow> nat \<Rightarrow> string" where
  "natToDigits 0 n = []"
| "natToDigits (Suc fuel) n =
     (if n < 10 then [char_of (48 + n)]
      else natToDigits fuel (n div 10) @ [char_of (48 + n mod 10)])"

fun printNumber :: "jsnum \<Rightarrow> string" where
  "printNumber NaN = ''NaN''"
| "printNumber PosInf = ''Infinity''"
| "printNumber NegInf = ''-Infinity''"
| "printNumber NegZero = ''0''"
| "printNumber (Fin r) =
     (if 0 \<le> r \<and> r = of_int \<lfloor>r\<rfloor> then natToDigits 20 (nat \<lfloor>r\<rfloor>) else ''?'')"

definition exampleHost :: host where
  "exampleHost =
     \<lparr> stringToNumber = digitsToNumber, numberToString = printNumber,
       trimString = dropWhile (\<lambda>c. c = CHR '' '') \<rparr>"

section \<open>The type lattice\<close>

text \<open>
  Modelled from the spec: the \<open>InputType\<close> enumeration of \<open>src/compiler/enums.js\<close>, which
  is not among the sources.  A type is a bitset over disjoint atoms; JavaScript's \<open>&\<close> and
  \<open>|\<close> work on 32-bit integers.  The groups are the unions the spec lists; \<open>ANY\<close> is the
  union of all atoms.  \<open>STRING\<close> has the atom \<open>STRING_NUM\<close> and one more, \<open>STRING_NAN\<close>,
  for the strings that do not read as a number.
\<close>

type_synonym InputType = "32 word"

definition NUMBER_POS_INF :: InputType where "NUMBER_POS_INF = 0x001"
definition NUMBER_POS_INT :: InputType where "NUMBER_POS_INT = 0x002"
definition NUMBER_POS_FRACT :: InputType where "NUMBER_POS_FRACT = 0x004"
definition NUMBER_ZERO :: InputType where "NUMBER_ZERO = 0x008"
definition NUMBER_NEG_ZERO :: InputType where "NUMBER_NEG_ZERO = 0x010"
definition NUMBER_NEG_INT :: InputType where "NUMBER_NEG_INT = 0x020"
definition NUMBER_NEG_FRACT :: InputType where "NUMBER_NEG_FRACT = 0x040"
definition NUMBER_NEG_INF :: InputType where "NUMBER_NEG_INF = 0x080"
definition NUMBER_NAN :: InputType where "NUMBER_NAN = 0x100"
definition STRING_NUM :: InputType where "STRING_NUM = 0x200"
definition STRING_NAN :: InputType where "STRING_NAN = 0x400"
definition BOOLEAN :: InputType where "BOOLEAN = 0x800"

definition NUMBER_POS_REAL :: InputType where
  "NUMBER_POS_REAL = NUMBER_POS_INT OR NUMBER_POS_FRACT"
definition NUMBER_NEG_REAL :: InputType where
  "NUMBER_NEG_REAL = NUMBER_NEG_INT OR NUMBER_NEG_FRACT"
definition NUMBER_POS :: InputType where
  "NUMBER_POS = NUMBER_POS_INT OR NUMBER_POS_FRACT OR NUMBER_POS_INF"
definition NUMBER_NEG :: InputType where
  "NUMBER_NEG = NUMBER_NEG_INT OR NUMBER_NEG_FRACT OR NUMBER_NEG_INF"
definition NUMBER_ANY_ZERO :: InputType where
  "NUMBER_ANY_ZERO = NUMBER_ZERO OR NUMBER_NEG_ZERO"
definition NUMBER_INF :: InputType where
  "NUMBER_INF = NUMBER_POS_INF OR NUMBER_NEG_INF"
definition NUMBER_FRACT :: InputType where
  "NUMBER_FRACT = NUMBER_POS_FRACT OR NUMBER_NEG_FRACT"
definition NUMBER_REAL :: InputType where
  "NUMBER_REAL = NUMBER_POS_REAL OR NUMBER_ANY_ZERO OR NUMBER_NEG_REAL"
definition NUMBER :: InputType where
  "NUMBER = NUMBER_POS OR NUMBER_ANY_ZERO OR NUMBER_NEG"
definition NUMBER_OR_NAN :: InputType where
  "NUMBER_OR_NAN = NUMBER OR NUMBER_NAN"
definition STRING :: InputType where
  "STRING = STRING_NUM OR STRING_NAN"
definition ANY :: InputType where
  "ANY = NUMBER_OR_NAN OR STRING OR BOOLEAN"

named_theorems InputType_defs

lemmas InputType_values [InputType_defs] =
  NUMBER_POS_INF_def NUMBER_POS_INT_def NUMBER_POS_FRACT_def NUMBER_ZERO_def
  NUMBER_NEG_ZERO_def NUMBER_NEG_INT_def NUMBER_NEG_FRACT_def NUMBER_NEG_INF_def
  NUMBER_NAN_def STRING_NUM_def STRING_NAN_def BOOLEAN_def NUMBER_POS_REAL_def
  NUMBER_NEG_REAL_def NUMBER_POS_def NUMBER_NEG_def NUMBER_ANY_ZERO_def NUMBER_INF_def
  NUMBER_FRACT_def NUMBER_REAL_def NUMBER_def NUMBER_OR_NAN_def STRING_def ANY_def

section \<open>Intermediate inputs (\<open>src/compiler/intermediate.js\<close>)\<close>

text \<open>
  An \<open>IntermediateInput\<close> is an object \<open>{opcode, type, inputs}\<close>; the opcode decides which
  inputs there are, so the node is a tagged union.  \<open>Constant\<close> has \<open>inputs.value\<close>,
  \<open>VarGet\<close> has \<open>inputs.variable.name\<close>, a cast has \<open>inputs.target\<close>, the four
  arithmetic operators have \<open>inputs.left\<close> and \<open>inputs.right\<close>.  A compatibility-layer
  input keeps its operands one level down, in \<open>inputs.inputs\<close>.  Every other opcode is
  \<open>OtherInput\<close> with its name and the inputs that are themselves \<open>IntermediateInput\<close>s.
\<close>

datatype CastOpcode =
  CAST_BOOLEAN | CAST_NUMBER | CAST_NUMBER_OR_NAN | CAST_NUMBER_INDEX | CAST_STRING

datatype ArithOpcode = OP_ADD | OP_SUBTRACT | OP_MULTIPLY | OP_DIVIDE

datatype IntermediateInput =
    Constant InputType jsval
  | VarGet InputType string
  | Cast CastOpcode InputType IntermediateInput
  | Arith ArithOpcode InputType IntermediateInput IntermediateInput
  | CompatInput InputType "(string \<times> IntermediateInput) list"
  | OtherInput string InputType "(string \<times> IntermediateInput) list"

fun type_of :: "IntermediateInput \<Rightarrow> InputType" where
  "type_of (Constant t v) = t"
| "type_of (VarGet t x) = t"
| "type_of (Cast c t i) = t"
| "type_of (Arith a t l r) = t"
| "type_of (CompatInput t ins) = t"
| "type_of (OtherInput opc t ins) = t"

fun set_type :: "InputType \<Rightarrow> IntermediateInput \<Rightarrow> IntermediateInput" where
  "set_type t' (Constant t v) = Constant t' v"
| "set_type t' (VarGet t x) = VarGet t' x"
| "set_type t' (Cast c t i) = Cast c t' i"
| "set_type t' (Arith a t l r) = Arith a t' l r"
| "set_type t' (CompatInput t ins) = CompatInput t' ins"
| "set_type t' (OtherInput opc t ins) = OtherInput opc t' ins"

fun is_constant_node :: "IntermediateInput \<Rightarrow> bool" where
  "is_constant_node (Constant t v) = True"
| "is_constant_node _ = False"

fun constant_value :: "IntermediateInput \<Rightarrow> jsval option" where
  "constant_value (Constant t v) = Some v"
| "constant_value _ = None"

text \<open>\<open>IntermediateInput.getNumberInputType\<close>, in the order of its tests.\<close>

definition getNumberInputType :: "jsnum \<Rightarrow> InputType" where
  "getNumberInputType number =
     (if number = PosInf then NUMBER_POS_INF
      else if number = NegInf then NUMBER_NEG_INF
      else if js_lt_zero number then NUMBER_NEG
      else if js_gt_zero number then NUMBER_POS
      else if number = NaN then NUMBER_NAN
      else NUMBER_ZERO)"

text \<open>\<open>isAlwaysType\<close>: \<open>(this.type & type) === this.type\<close>.\<close>

definition isAlwaysType :: "IntermediateInput \<Rightarrow> InputType \<Rightarrow> bool" where
  "isAlwaysType inp t = (type_of inp AND t = type_of inp)"

text \<open>\<open>isSometimesType\<close>: \<open>(this.type & type) !== 0\<close>.\<close>

definition isSometimesType :: "IntermediateInput \<Rightarrow> InputType \<Rightarrow> bool" where
  "isSometimesType inp t = (type_of inp AND t \<noteq> 0)"

datatype error =
    CannotCast InputType
  | ScriptYielded
  | YieldingProcedure
  | MissingProcedure string

text \<open>The \<open>switch (targetType)\<close> of \<open>toType\<close>; its default branch throws.\<close>

definition castOpcodeFor :: "InputType \<Rightarrow> CastOpcode option" where
  "castOpcodeFor targetType =
     (if targetType = BOOLEAN then Some CAST_BOOLEAN
      else if targetType = NUMBER then Some CAST_NUMBER
      else if targetType = NUMBER_OR_NAN then Some CAST_NUMBER_OR_NAN
      else if targetType = STRING then Some CAST_STRING
      else None)"

text \<open>
  The compile-time numeric cast of a constant: \<open>numberValue\<close> when it is truthy, otherwise
  \<open>-0\<close> when it is \<open>-0\<close>, otherwise \<open>0\<close> (also for NaN).
\<close>

definition castConstantNumber :: "jsnum \<Rightarrow> jsnum" where
  "castConstantNumber numberValue =
     (if js_truthy_num numberValue then numberValue
      else if numberValue = NegZero then NegZero
      else Fin 0)"

text \<open>
  \<open>toType\<close>.  A constant is rewritten in place and returned; any other input is wrapped
  into a new cast node of the target type.  The cases \<open>CAST_NUMBER\<close> and
  \<open>CAST_NUMBER_OR_NAN\<close> share one body in the source.
\<close>

definition toType :: "host \<Rightarrow> IntermediateInput \<Rightarrow> InputType \<Rightarrow> error + IntermediateInput" where
  "toType h inp targetType =
     (case castOpcodeFor targetType of
        None \<Rightarrow> Inl (CannotCast targetType)
      | Some castOpcode \<Rightarrow>
          if isAlwaysType inp targetType then Inr inp
          else (case inp of
                  Constant t v \<Rightarrow>
                    (case castOpcode of
                       CAST_BOOLEAN \<Rightarrow> Inr (Constant BOOLEAN (JBool (toBoolean v)))
                     | CAST_NUMBER \<Rightarrow>
                         Inr (Constant NUMBER (JNum (castConstantNumber (toNumber h v))))
                     | CAST_NUMBER_OR_NAN \<Rightarrow>
                         Inr (Constant NUMBER (JNum (castConstantNumber (toNumber h v))))
                     | CAST_STRING \<Rightarrow> Inr (Constant STRING (JStr (valueToString h v)))
                     | CAST_NUMBER_INDEX \<Rightarrow> Inr inp)
                | _ \<Rightarrow> Inr (Cast castOpcode targetType inp)))"

section \<open>Type states (\<open>TypeState\<close> of the optimizer)\<close>

text \<open>
  \<open>TypeState.variables\<close> is an object from variable names to types.  An object keeps its
  keys in insertion order and never twice, which an association list updated with
  \<open>AList.update\<close> does as well.  Variable names are taken not to collide with the
  members every object inherits (\<open>constructor\<close>, \<open>toString\<close>, ...).
\<close>

type_synonym TypeState = "(string \<times> InputType) list"

text \<open>\<open>getVariableType\<close>: \<open>this.variables[variable.name] ?? InputType.ANY\<close>.\<close>

definition getVariableType :: "TypeState \<Rightarrow> string \<Rightarrow> InputType" where
  "getVariableType state name = (case map_of state name of None \<Rightarrow> ANY | Some t \<Rightarrow> t)"

text \<open>\<open>setVariableType\<close> returns whether the stored type changed, and the new state.\<close>

definition setVariableType :: "TypeState \<Rightarrow> string \<Rightarrow> InputType \<Rightarrow> bool \<times> TypeState" where
  "setVariableType state name t =
     (if getVariableType state name = t then (False, state)
      else (True, AList.update name t state))"

text \<open>\<open>clear\<close>: was any entry different from \<open>ANY\<close>; the variables become \<open>{}\<close>.\<close>

definition clear :: "TypeState \<Rightarrow> bool \<times> TypeState" where
  "clear state = (list_ex (\<lambda>(varId, t). t \<noteq> ANY) state, [])"

definition clone :: "TypeState \<Rightarrow> TypeState" where
  "clone state = state"

text \<open>
  \<open>or\<close>, first loop: for every variable of \<open>other\<close>, join its type into this state (an
  absent variable counts as \<open>ANY\<close>); \<open>modified\<close> records whether a type changed.
\<close>

fun or_join :: "TypeState \<Rightarrow> TypeState \<Rightarrow> bool \<Rightarrow> TypeState \<times> bool" where
  "or_join [] this modified = (this, modified)"
| "or_join ((varId, t) # other) this modified =
     (let currentType = getVariableType this varId;
          newType = currentType OR t
      in or_join other (AList.update varId newType this) (modified \<or> currentType \<noteq> newType))"

text \<open>
  \<open>or\<close>, second loop: a variable of this state for which \<open>other.variables[varId]\<close> is
  falsy (absent, or the empty type 0) is set to \<open>ANY\<close>, unless it is \<open>ANY\<close> already.
\<close>

definition other_lacks :: "TypeState \<Rightarrow> string \<Rightarrow> bool" where
  "other_lacks other varId = (case map_of other varId of None \<Rightarrow> True | Some t \<Rightarrow> t = 0)"

definition or_missing :: "TypeState \<Rightarrow> TypeState \<Rightarrow> TypeState \<times> bool" where
  "or_missing other this =
     (map (\<lambda>(varId, t). if other_lacks other varId \<and> t \<noteq> ANY then (varId, ANY) else (varId, t)) this,
      list_ex (\<lambda>(varId, t). other_lacks other varId \<and> t \<noteq> ANY) this)"

text \<open>\<open>this.or(other)\<close>: whether this state was modified, and the new state.\<close>

definition or_state :: "TypeState \<Rightarrow> TypeState \<Rightarrow> bool \<times> TypeState" where
  "or_state this other =
     (let (joined, modified1) = or_join other this False;
          (result, modified2) = or_missing other joined
      in (modified1 \<or> modified2, result))"

section \<open>The analyzer of inputs (\<open>IROptimizer.analyzeInputBlock\<close>)\<close>

text \<open>\<open>has t m\<close> is the truthiness of \<open>t & m\<close>.\<close>

definition has :: "InputType \<Rightarrow> InputType \<Rightarrow> bool" where
  "has t m = (t AND m \<noteq> 0)"

definition bits_if :: "bool \<Rightarrow> InputType \<Rightarrow> InputType" where
  "bits_if c m = (if c then m else 0)"

definition analyzeAdd :: "InputType \<Rightarrow> InputType \<Rightarrow> InputType" where
  "analyzeAdd leftType rightType =
     (let canBeNaN =
            (has leftType NUMBER_POS_INF \<and> has rightType NUMBER_NEG_INF
             \<or> has leftType NUMBER_NEG_INF \<and> has rightType NUMBER_POS_INF);
          canBeFract = (has leftType NUMBER_FRACT \<or> has rightType NUMBER_FRACT);
          canBePos = (has leftType NUMBER_POS \<or> has rightType NUMBER_POS);
          canBeNeg = (has leftType NUMBER_NEG \<or> has rightType NUMBER_NEG);
          canBeZero =
            (has leftType NUMBER_POS_REAL \<and> has rightType NUMBER_NEG_REAL
             \<or> has leftType NUMBER_NEG_REAL \<and> has rightType NUMBER_POS_REAL
             \<or> has leftType NUMBER_ZERO \<and> has rightType NUMBER_ZERO
             \<or> has leftType NUMBER_ZERO \<and> has rightType NUMBER_NEG_ZERO
             \<or> has leftType NUMBER_NEG_ZERO \<and> has rightType NUMBER_ZERO);
          canBeNegZero = (has leftType NUMBER_NEG_ZERO \<and> has rightType NUMBER_NEG_ZERO)
      in bits_if canBeNaN NUMBER_NAN
         OR bits_if canBePos (NUMBER_POS_INT OR NUMBER_POS_INF)
         OR bits_if (canBePos \<and> canBeFract) NUMBER_POS_FRACT
         OR bits_if canBeNeg (NUMBER_NEG_INT OR NUMBER_NEG_INF)
         OR bits_if (canBeNeg \<and> canBeFract) NUMBER_NEG_FRACT
         OR bits_if canBeZero NUMBER_ZERO
         OR bits_if canBeNegZero NUMBER_NEG_ZERO)"

definition analyzeSubtract :: "InputType \<Rightarrow> InputType \<Rightarrow> InputType" where
  "analyzeSubtract leftType rightType =
     (let canBeNaN =
            (has leftType NUMBER_POS_INF \<and> has rightType NUMBER_POS_INF
             \<or> has leftType NUMBER_NEG_INF \<and> has rightType NUMBER_NEG_INF);
          canBeFract = (has leftType NUMBER_FRACT \<or> has rightType NUMBER_FRACT);
          canBePos = (has leftType NUMBER_POS \<or> has rightType NUMBER_NEG);
          canBeNeg = (has leftType NUMBER_NEG \<or> has rightType NUMBER_POS);
          canBeZero =
            (has leftType NUMBER_POS_REAL \<and> has rightType NUMBER_POS_REAL
             \<or> has leftType NUMBER_NEG_REAL \<and> has rightType NUMBER_NEG_REAL
             \<or> has leftType NUMBER_ZERO \<and> has rightType NUMBER_ZERO
             \<or> has leftType NUMBER_ZERO \<and> has rightType NUMBER_NEG_ZERO
             \<or> has leftType NUMBER_NEG_ZERO \<and> has rightType NUMBER_NEG_ZERO);
          canBeNegZero = (has leftType NUMBER_NEG_ZERO \<and> has rightType NUMBER_ZERO)
      in bits_if canBeNaN NUMBER_NAN
         OR bits_if canBePos (NUMBER_POS_INT OR NUMBER_POS_INF)
         OR bits_if (canBePos \<and> canBeFract) NUMBER_POS_FRACT
         OR bits_if canBeNeg (NUMBER_NEG_INT OR NUMBER_NEG_INF)
         OR bits_if (canBeNeg \<and> canBeFract) NUMBER_NEG_FRACT
         OR bits_if canBeZero NUMBER_ZERO
         OR bits_if canBeNegZero NUMBER_NEG_ZERO)"

definition analyzeMultiply :: "InputType \<Rightarrow> InputType \<Rightarrow> InputType" where
  "analyzeMultiply leftType rightType =
     (let canBeNaN =
            (has leftType NUMBER_POS_INF \<and> has rightType NUMBER_ANY_ZERO
             \<or> has leftType NUMBER_ANY_ZERO \<and> has rightType NUMBER_POS_INF);
          canBeFract = (has leftType NUMBER_FRACT \<or> has rightType NUMBER_FRACT);
          canBePos =
            (has leftType NUMBER_POS \<and> has rightType NUMBER_POS
             \<or> has leftType NUMBER_NEG \<and> has rightType NUMBER_NEG);
          canBeNeg =
            (has leftType NUMBER_POS \<and> has rightType NUMBER_NEG
             \<or> has leftType NUMBER_NEG \<and> has rightType NUMBER_POS);
          canBeZero =
            (has leftType NUMBER_ZERO \<and> has rightType NUMBER_POS_REAL
             \<or> has leftType NUMBER_NEG_ZERO \<and> has rightType NUMBER_NEG_REAL
             \<or> has leftType NUMBER_POS_REAL \<and> has rightType NUMBER_ZERO
             \<or> has leftType NUMBER_NEG_REAL \<and> has rightType NUMBER_NEG_ZERO
             \<or> has leftType NUMBER_POS_REAL \<and> has rightType NUMBER_POS_REAL
             \<or> has leftType NUMBER_NEG_REAL \<and> has rightType NUMBER_NEG_REAL);
          canBeNegZero =
            (has leftType NUMBER_NEG_ZERO \<and> has rightType NUMBER_POS_REAL
             \<or> has leftType NUMBER_ZERO \<and> has rightType NUMBER_NEG_REAL
             \<or> has leftType NUMBER_POS_REAL \<and> has rightType NUMBER_NEG_ZERO
             \<or> has leftType NUMBER_NEG_REAL \<and> has rightType NUMBER_ZERO
             \<or> has leftType NUMBER_NEG_REAL \<and> has rightType NUMBER_POS_REAL
             \<or> has leftType NUMBER_POS_REAL \<and> has rightType NUMBER_NEG_REAL)
      in bits_if canBeNaN NUMBER_NAN
         OR bits_if canBePos (NUMBER_POS_INT OR NUMBER_POS_INF)
         OR bits_if (canBePos \<and> canBeFract) NUMBER_POS_FRACT
         OR bits_if canBeNeg (NUMBER_NEG_INT OR NUMBER_NEG_INF)
         OR bits_if (canBeNeg \<and> canBeFract) NUMBER_NEG_FRACT
         OR bits_if canBeZero NUMBER_ZERO
         OR bits_if canBeNegZero NUMBER_NEG_ZERO)"

definition analyzeDivide :: "InputType \<Rightarrow> InputType \<Rightarrow> InputType" where
  "analyzeDivide leftType rightType =
     (let canBeNaN =
            (has leftType NUMBER_REAL \<and> has rightType NUMBER_ZERO
             \<or> has leftType NUMBER_INF \<and> has rightType NUMBER_INF);
          canBePos =
            (has leftType NUMBER_POS \<and> has rightType NUMBER_POS
             \<or> has leftType NUMBER_NEG \<and> has rightType NUMBER_NEG);
          canBeNeg =
            (has leftType NUMBER_POS \<and> has rightType NUMBER_NEG
             \<or> has leftType NUMBER_NEG \<and> has rightType NUMBER_POS);
          canBeZero =
            (has leftType NUMBER_ZERO \<and> has rightType NUMBER_POS
             \<or> has leftType NUMBER_NEG_ZERO \<and> has rightType NUMBER_NEG
             \<or> has leftType NUMBER_POS_REAL \<and> has rightType NUMBER_POS_REAL
             \<or> has leftType NUMBER_NEG_REAL \<and> has rightType NUMBER_NEG_REAL);
          canBeNegZero =
            (has leftType NUMBER_NEG_ZERO \<and> has rightType NUMBER_POS
             \<or> has leftType NUMBER_ZERO \<and> has rightType NUMBER_NEG
             \<or> has leftType NUMBER_NEG_REAL \<and> has rightType NUMBER_POS_REAL
             \<or> has leftType NUMBER_POS_REAL \<and> has rightType NUMBER_NEG_REAL)
      in bits_if canBeNaN NUMBER_NAN
         OR bits_if canBePos NUMBER_POS
         OR bits_if (has leftType NUMBER_NEG_INF \<and> has rightType NUMBER_ZERO) NUMBER_NEG_INF
         OR bits_if (has leftType NUMBER_POS_INF \<and> has rightType NUMBER_NEG_ZERO) NUMBER_NEG_INF
         OR bits_if (has leftType NUMBER_POS_INF \<and> has rightType NUMBER_ZERO) NUMBER_POS_INF
         OR bits_if (has leftType NUMBER_NEG_INF \<and> has rightType NUMBER_NEG_ZERO) NUMBER_POS_INF
         OR bits_if canBeNeg NUMBER_NEG
         OR bits_if canBeZero NUMBER_ZERO
         OR bits_if canBeNegZero NUMBER_NEG_ZERO)"

fun analyzeArith :: "ArithOpcode \<Rightarrow> InputType \<Rightarrow> InputType \<Rightarrow> InputType" where
  "analyzeArith OP_ADD l r = analyzeAdd l r"
| "analyzeArith OP_SUBTRACT l r = analyzeSubtract l r"
| "analyzeArith OP_MULTIPLY l r = analyzeMultiply l r"
| "analyzeArith OP_DIVIDE l r = analyzeDivide l r"

text \<open>
  \<open>analyzeInputBlock\<close>.  The opcodes the \<open>switch\<close> does not list fall through to
  \<open>return inputBlock.type\<close>.
\<close>

fun analyzeInputBlock :: "IntermediateInput \<Rightarrow> TypeState \<Rightarrow> InputType" where
  "analyzeInputBlock (VarGet t name) state = getVariableType state name"
| "analyzeInputBlock (Cast CAST_NUMBER t target) state =
     (let innerType = analyzeInputBlock target state
      in if innerType AND NUMBER \<noteq> 0 then innerType else NUMBER)"
| "analyzeInputBlock (Cast CAST_NUMBER_OR_NAN t target) state =
     (let innerType = analyzeInputBlock target state
      in if innerType AND NUMBER_OR_NAN \<noteq> 0 then innerType else NUMBER_OR_NAN)"
| "analyzeInputBlock (Arith opc t left right) state =
     analyzeArith opc (analyzeInputBlock left state) (analyzeInputBlock right state)"
| "analyzeInputBlock inputBlock state = type_of inputBlock"

section \<open>The rewriter of inputs (\<open>IROptimizer.optimizeInput\<close>)\<close>

text \<open>
  \<open>optimizeInput\<close> first rewrites, in place, every input of the node that is itself an
  \<open>IntermediateInput\<close>; the operands of a compatibility-layer input sit one level down
  and are not visited.  A \<open>CAST_NUMBER\<close> or \<open>CAST_NUMBER_OR_NAN\<close> node then gives way to
  its (rewritten) target when the target's analyzed type is inside the cast's type, and
  is returned as it is otherwise; every other node gets its \<open>type\<close> set to its analyzed
  type.
\<close>

fun optimizeInput :: "IntermediateInput \<Rightarrow> TypeState \<Rightarrow> IntermediateInput" where
  "optimizeInput (Constant t v) state =
     set_type (analyzeInputBlock (Constant t v) state) (Constant t v)"
| "optimizeInput (VarGet t name) state =
     set_type (analyzeInputBlock (VarGet t name) state) (VarGet t name)"
| "optimizeInput (Cast CAST_NUMBER t target) state =
     (let target' = optimizeInput target state;
          targetType = analyzeInputBlock target' state
      in if targetType AND NUMBER = targetType then target' else Cast CAST_NUMBER t target')"
| "optimizeInput (Cast CAST_NUMBER_OR_NAN t target) state =
     (let target' = optimizeInput target state;
          targetType = analyzeInputBlock target' state
      in if targetType AND NUMBER_OR_NAN = targetType then target'
         else Cast CAST_NUMBER_OR_NAN t target')"
| "optimizeInput (Cast c t target) state =
     (let input = Cast c t (optimizeInput target state)
      in set_type (analyzeInputBlock input state) input)"
| "optimizeInput (Arith opc t left right) state =
     (let input = Arith opc t (optimizeInput left state) (optimizeInput right state)
      in set_type (analyzeInputBlock input state) input)"
| "optimizeInput (CompatInput t ins) state =
     set_type (analyzeInputBlock (CompatInput t ins) state) (CompatInput t ins)"
| "optimizeInput (OtherInput opc t ins) state =
     (let input = OtherInput opc t (map (\<lambda>kv. (fst kv, optimizeInput (snd kv) state)) ins)
      in set_type (analyzeInputBlock input state) input)"

section \<open>Stack blocks\<close>

text \<open>
  An \<open>IntermediateStackBlock\<close> is \<open>{opcode, inputs, yields}\<close>, to which the analyzer adds
  \<open>entryState\<close> and \<open>exitState\<close>.  The flag and the two annotations form \<open>BlockInfo\<close>.
  The opcode decides the inputs: \<open>VAR_SET\<close> has a variable and a value, the three loops
  have a stack \<open>do\<close>, \<open>CONTROL_IF_ELSE\<close> has a condition and two stacks, a procedure call
  has the procedure's code, its variant and the arguments.  All other opcodes carry no
  stack; they are \<open>PlainBlock\<close> with their inputs in the order the generator reads them.
  An \<open>IntermediateStack\<close> is the list of its blocks; where the analyzer is handed no stack
  (\<open>if (!stack) return false\<close>) it does what it does on the empty list.
\<close>

record BlockInfo =
  yields :: bool
  entryState :: "TypeState option"
  exitState :: "TypeState option"

datatype PlainOpcode =
    ADDON_CALL | COMPATIBILITY_LAYER | CONTROL_CLONE_DELETE | CONTROL_STOP_ALL
  | CONTROL_STOP_OTHERS | CONTROL_STOP_SCRIPT | CONTROL_WAIT | CONTROL_WAIT_UNTIL
  | EVENT_BROADCAST | EVENT_BROADCAST_AND_WAIT | NOP | OTHER_STACK string

datatype IntermediateStackBlock =
    VarSet BlockInfo string IntermediateInput
  | ControlWhile BlockInfo IntermediateInput bool "IntermediateStackBlock list"
  | ControlFor BlockInfo string IntermediateInput "IntermediateStackBlock list"
  | ControlRepeat BlockInfo IntermediateInput "IntermediateStackBlock list"
  | ControlIfElse BlockInfo IntermediateInput
      "IntermediateStackBlock list" "IntermediateStackBlock list"
  | ProcedureCall BlockInfo string string "IntermediateInput list"
  | PlainBlock BlockInfo PlainOpcode "IntermediateInput list"

fun info :: "IntermediateStackBlock \<Rightarrow> BlockInfo" where
  "info (VarSet i x v) = i"
| "info (ControlWhile i c w body) = i"
| "info (ControlFor i x c body) = i"
| "info (ControlRepeat i c body) = i"
| "info (ControlIfElse i c whenTrue whenFalse) = i"
| "info (ProcedureCall i code variant args) = i"
| "info (PlainBlock i opc ins) = i"

fun set_info :: "BlockInfo \<Rightarrow> IntermediateStackBlock \<Rightarrow> IntermediateStackBlock" where
  "set_info i' (VarSet i x v) = VarSet i' x v"
| "set_info i' (ControlWhile i c w body) = ControlWhile i' c w body"
| "set_info i' (ControlFor i x c body) = ControlFor i' x c body"
| "set_info i' (ControlRepeat i c body) = ControlRepeat i' c body"
| "set_info i' (ControlIfElse i c whenTrue whenFalse) = ControlIfElse i' c whenTrue whenFalse"
| "set_info i' (ProcedureCall i code variant args) = ProcedureCall i' code variant args"
| "set_info i' (PlainBlock i opc ins) = PlainBlock i' opc ins"

text \<open>A block fresh from the front end: no annotation yet.\<close>

definition fresh :: "bool \<Rightarrow> BlockInfo" where
  "fresh y = \<lparr> yields = y, entryState = None, exitState = None \<rparr>"

section \<open>The analyzer of stacks\<close>

text \<open>
  The lines of \<open>analyzeStack\<close> after the call of \<open>analyzeStackBlock\<close>:
  \<open>if (stackBlock.yields) stateChanged ||= state.clear()\<close>, where \<open>||=\<close> evaluates its
  right side only when the left side is false, and then the recording of the exit
  state, which happens only when \<open>stateChanged\<close> holds.
\<close>

definition yieldClear :: "bool \<Rightarrow> bool \<Rightarrow> TypeState \<Rightarrow> bool \<times> TypeState" where
  "yieldClear blockYields stateChanged state =
     (if blockYields \<and> \<not> stateChanged then clear state else (stateChanged, state))"

definition recordExit :: "bool \<Rightarrow> TypeState \<Rightarrow> IntermediateStackBlock \<Rightarrow> IntermediateStackBlock" where
  "recordExit stateChanged state stackBlock =
     (if stateChanged then
        (case exitState (info stackBlock) of
           Some e \<Rightarrow> set_info ((info stackBlock)\<lparr> exitState := Some (snd (or_state e state)) \<rparr>) stackBlock
         | None \<Rightarrow> set_info ((info stackBlock)\<lparr> exitState := Some (clone state) \<rparr>) stackBlock)
      else stackBlock)"

text \<open>
  The analyzer proper.  The \<open>do ... while (keepLooping)\<close> of \<open>analyzeLoopedStack\<close> may
  in principle run forever, so the analyzer takes fuel and returns \<open>None\<close> when it runs
  out: a unit of fuel is used by every nested call of \<open>analyzeStackBlock\<close> and by every
  round of the \<open>do ... while\<close>.  Each function returns what the source returns (the
  \<open>modified\<close> flag) together with what it mutates: the blocks, whose annotations it
  writes, and the state.

  The source's functions call each other; here the callee is a parameter of
  \<open>analyzeStackWith\<close>, \<open>doWhileWith\<close> and \<open>analyzeLoopedStackWith\<close>, and
  \<open>analyzeStackBlock\<close> closes the recursion on the fuel.

  \<open>analyzeStackWith\<close> is the loop of \<open>analyzeStack\<close> over the blocks.
\<close>

type_synonym BlockAnalyzer =
  "IntermediateStackBlock \<Rightarrow> TypeState \<Rightarrow> (bool \<times> IntermediateStackBlock \<times> TypeState) option"

type_synonym StackAnalyzer =
  "IntermediateStackBlock list \<Rightarrow> TypeState \<Rightarrow> (bool \<times> IntermediateStackBlock list \<times> TypeState) option"

fun analyzeStackWith :: "BlockAnalyzer \<Rightarrow> StackAnalyzer" where
  "analyzeStackWith analyzeBlock [] state = Some (False, [], state)"
| "analyzeStackWith analyzeBlock (stackBlock # rest) state =
     (case analyzeBlock stackBlock state of
        None \<Rightarrow> None
      | Some (changed0, stackBlock1, state1) \<Rightarrow>
          (let (stateChanged, state2) = yieldClear (yields (info stackBlock1)) changed0 state1;
               stackBlock2 = recordExit stateChanged state2 stackBlock1
           in (case analyzeStackWith analyzeBlock rest state2 of
                 None \<Rightarrow> None
               | Some (modified, rest', state3) \<Rightarrow>
                   Some (stateChanged \<or> modified, stackBlock2 # rest', state3))))"

text \<open>
  The \<open>do ... while\<close> of \<open>analyzeLoopedStack\<close>:
  \<open>modified = keepLooping = state.or(newState)\<close> leaves in \<open>modified\<close> the value of the
  last \<open>or\<close>.
\<close>

fun doWhileWith :: "StackAnalyzer \<Rightarrow> nat \<Rightarrow> StackAnalyzer" where
  "doWhileWith analyze 0 stack state = None"
| "doWhileWith analyze (Suc n) stack state =
     (case analyze stack (clone state) of
        None \<Rightarrow> None
      | Some (m, stack', newState) \<Rightarrow>
          (let (keepLooping, state') = or_state state newState
           in if keepLooping then doWhileWith analyze n stack' state'
              else Some (keepLooping, stack', state')))"

text \<open>
  \<open>analyzeLoopedStack\<close>: for a yielding loop block, clear the state, annotate the block
  with it, and analyze the body once; otherwise run the \<open>do ... while\<close> and then set
  \<open>block.entryState = state.clone()\<close>.
\<close>

definition analyzeLoopedStackWith ::
  "StackAnalyzer \<Rightarrow> nat \<Rightarrow> IntermediateStackBlock list \<Rightarrow> TypeState \<Rightarrow> BlockInfo \<Rightarrow>
     (bool \<times> IntermediateStackBlock list \<times> BlockInfo \<times> TypeState) option" where
  "analyzeLoopedStackWith analyze n stack state i =
     (if yields i then
        (let (modified, state1) = clear state;
             i' = i\<lparr> entryState := Some (clone state1), exitState := Some (clone state1) \<rparr>
         in (case analyze stack state1 of
               None \<Rightarrow> None
             | Some (m, stack', state2) \<Rightarrow> Some (m \<or> modified, stack', i', state2)))
      else
        (case doWhileWith analyze n stack state of
           None \<Rightarrow> None
         | Some (modified, stack', state') \<Rightarrow>
             Some (modified, stack', i\<lparr> entryState := Some (clone state') \<rparr>, state')))"

text \<open>
  \<open>analyzeStackBlock\<close>: the \<open>switch\<close> on the opcode.  In the \<open>CONTROL_IF_ELSE\<close> case
  \<open>modified ||= state.or(trueState)\<close> joins only when \<open>modified\<close> is still false.
\<close>

primrec analyzeStackBlock :: "nat \<Rightarrow> BlockAnalyzer" where
  "analyzeStackBlock 0 = (\<lambda>stackBlock state. None)"
| "analyzeStackBlock (Suc n) = (\<lambda>stackBlock state.
     case stackBlock of
       VarSet i name v \<Rightarrow>
         (let (changed, state') = setVariableType state name (analyzeInputBlock v state)
          in Some (changed, VarSet i name v, state'))
     | ControlWhile i c w body \<Rightarrow>
         (case analyzeLoopedStackWith (analyzeStackWith (analyzeStackBlock n)) n body state i of
            None \<Rightarrow> None
          | Some (modified, body', i', state') \<Rightarrow> Some (modified, ControlWhile i' c w body', state'))
     | ControlFor i x c body \<Rightarrow>
         (case analyzeLoopedStackWith (analyzeStackWith (analyzeStackBlock n)) n body state i of
            None \<Rightarrow> None
          | Some (modified, body', i', state') \<Rightarrow> Some (modified, ControlFor i' x c body', state'))
     | ControlRepeat i c body \<Rightarrow>
         (case analyzeLoopedStackWith (analyzeStackWith (analyzeStackBlock n)) n body state i of
            None \<Rightarrow> None
          | Some (modified, body', i', state') \<Rightarrow> Some (modified, ControlRepeat i' c body', state'))
     | ControlIfElse i c whenTrue whenFalse \<Rightarrow>
         (case analyzeStackWith (analyzeStackBlock n) whenTrue (clone state) of
            None \<Rightarrow> None
          | Some (m1, whenTrue', trueState) \<Rightarrow>
              (case analyzeStackWith (analyzeStackBlock n) whenFalse state of
                 None \<Rightarrow> None
               | Some (modified, whenFalse', state') \<Rightarrow>
                   if modified then Some (True, ControlIfElse i c whenTrue' whenFalse', state')
                   else (let (m2, state'') = or_state state' trueState
                         in Some (m2, ControlIfElse i c whenTrue' whenFalse', state''))))
     | ProcedureCall i code variant args \<Rightarrow>
         (let (modified, state') = clear state
          in Some (modified, ProcedureCall i code variant args, state'))
     | PlainBlock i opc ins \<Rightarrow> Some (False, PlainBlock i opc ins, state))"

text \<open>The source's names, at a given fuel.\<close>

definition analyzeStack :: "nat \<Rightarrow> StackAnalyzer" where
  "analyzeStack n = analyzeStackWith (analyzeStackBlock n)"

definition analyzeLoopedStack ::
  "nat \<Rightarrow> IntermediateStackBlock list \<Rightarrow> TypeState \<Rightarrow> BlockInfo \<Rightarrow>
     (bool \<times> IntermediateStackBlock list \<times> BlockInfo \<times> TypeState) option" where
  "analyzeLoopedStack n = analyzeLoopedStackWith (analyzeStack n) n"

section \<open>Well-formed types and states\<close>

text \<open>
  A type is a lattice element when it has no bit outside \<open>ANY\<close>.  The predicates below say
  that of every type an input tree, a state and a stack of blocks carry; \<open>slack\<close> counts,
  over the entries of a state, how far each type is from \<open>ANY\<close>.
\<close>

definition in_lattice :: "InputType \<Rightarrow> bool" where
  "in_lattice t = (t AND ANY = t)"

fun types_within :: "IntermediateInput \<Rightarrow> bool" where
  "types_within (Constant t v) = in_lattice t"
| "types_within (VarGet t name) = in_lattice t"
| "types_within (Cast c t target) = (in_lattice t \<and> types_within target)"
| "types_within (Arith opc t left right) = (in_lattice t \<and> types_within left \<and> types_within right)"
| "types_within (CompatInput t ins) = (in_lattice t \<and> list_all (\<lambda>kv. types_within (snd kv)) ins)"
| "types_within (OtherInput opc t ins) = (in_lattice t \<and> list_all (\<lambda>kv. types_within (snd kv)) ins)"

definition state_within :: "TypeState \<Rightarrow> bool" where
  "state_within state = list_all (\<lambda>(varId, t). in_lattice t) state"

fun block_within :: "IntermediateStackBlock \<Rightarrow> bool" where
  "block_within (VarSet i name v) = types_within v"
| "block_within (ControlWhile i c w body) = (types_within c \<and> list_all block_within body)"
| "block_within (ControlFor i x c body) = (types_within c \<and> list_all block_within body)"
| "block_within (ControlRepeat i c body) = (types_within c \<and> list_all block_within body)"
| "block_within (ControlIfElse i c whenTrue whenFalse) =
     (types_within c \<and> list_all block_within whenTrue \<and> list_all block_within whenFalse)"
| "block_within (ProcedureCall i code variant args) = list_all types_within args"
| "block_within (PlainBlock i opc ins) = list_all types_within ins"

definition slack :: "TypeState \<Rightarrow> nat" where
  "slack state = sum_list (map (\<lambda>(varId, t). unat ANY - unat t) state)"

text \<open>
  What the analyzer keeps: on well-formed input an analyzer of blocks (of stacks) returns
  well-formed blocks of the same size and a well-formed state.  \<open>below f g\<close>: wherever \<open>f\<close>
  returns, \<open>g\<close> returns the same.
\<close>

definition sound_block :: "BlockAnalyzer \<Rightarrow> bool" where
  "sound_block A = (\<forall>b s m b' s'. block_within b \<longrightarrow> state_within s \<longrightarrow> A b s = Some (m, b', s')
      \<longrightarrow> block_within b' \<and> state_within s' \<and> size b' = size b)"

definition sound_stack :: "StackAnalyzer \<Rightarrow> bool" where
  "sound_stack A = (\<forall>bs s m bs' s'. list_all block_within bs \<longrightarrow> state_within s \<longrightarrow> A bs s = Some (m, bs', s')
      \<longrightarrow> list_all block_within bs' \<and> state_within s' \<and> size_list size bs' = size_list size bs)"

definition below :: "('a \<Rightarrow> 'b \<Rightarrow> 'c option) \<Rightarrow> ('a \<Rightarrow> 'b \<Rightarrow> 'c option) \<Rightarrow> bool" where
  "below f g = (\<forall>x y r. f x y = Some r \<longrightarrow> g x y = Some r)"

text \<open>
  No \<open>CAST_NUMBER\<close> or \<open>CAST_NUMBER_OR_NAN\<close> node of the tree has an operand whose analyzed
  type is the empty bitset.
\<close>

fun no_empty_cast :: "IntermediateInput \<Rightarrow> TypeState \<Rightarrow> bool" where
  "no_empty_cast (Cast c t target) state =
     (no_empty_cast target state
      \<and> (c = CAST_NUMBER \<or> c = CAST_NUMBER_OR_NAN \<longrightarrow> analyzeInputBlock target state \<noteq> 0))"
| "no_empty_cast (Arith opc t left right) state =
     (no_empty_cast left state \<and> no_empty_cast right state)"
| "no_empty_cast i state = True"

text \<open>
  The \<open>exitState\<close> a block has when \<open>analyzeStackBlock\<close> returns: its own, except that
  \<open>analyzeLoopedStack\<close> sets the one of a yielding loop block to the cleared state.
\<close>

fun is_loop :: "IntermediateStackBlock \<Rightarrow> bool" where
  "is_loop (ControlWhile i c w body) = True"
| "is_loop (ControlFor i x c body) = True"
| "is_loop (ControlRepeat i c body) = True"
| "is_loop b = False"

definition exitBefore :: "IntermediateStackBlock \<Rightarrow> TypeState option" where
  "exitBefore b = (if is_loop b \<and> yields (info b) then Some [] else exitState (info b))"

section \<open>The code generator (\<open>src/compiler/jsgen.js\<close>)\<close>

text \<open>
  The generator appends JavaScript text to \<open>this.source\<close>.  The model keeps the text in
  pieces, in the order they are appended: \<open>Text\<close> is a literal piece of a template,
  \<open>Expr input\<close> stands for the text \<open>descendInput(input)\<close> returns, and \<open>Name\<close> for an
  interpolated identifier or quoted string (a local or setup variable, a sanitized id).
  The statements of the many opcodes that emit plain text only are not spelled out:
  \<open>OTHER_STACK\<close> emits a \<open>Name\<close> and its inputs.  Errors that \<open>descendInput\<close> can raise
  are not modelled.
\<close>

datatype js = Text string | Expr IntermediateInput | Name

text \<open>
  \<open>descendInput\<close> writes \<open>yield*\<close> only for a compatibility-layer input
  (\<open>generateCompatibilityLayerCall\<close>); \<open>inputYields\<close> says whether the tree has one.
\<close>

fun inputYields :: "IntermediateInput \<Rightarrow> bool" where
  "inputYields (Constant t v) = False"
| "inputYields (VarGet t name) = False"
| "inputYields (Cast c t target) = inputYields target"
| "inputYields (Arith opc t left right) = (inputYields left \<or> inputYields right)"
| "inputYields (CompatInput t ins) = True"
| "inputYields (OtherInput opc t ins) = list_ex (\<lambda>kv. inputYields (snd kv)) ins"

text \<open>A piece mentions a yield when its text contains the word.\<close>

fun mentionsYield :: "js \<Rightarrow> bool" where
  "mentionsYield (Text t) = sublist ''yield'' t"
| "mentionsYield (Expr e) = inputYields e"
| "mentionsYield Name = False"

definition containsYield :: "js list \<Rightarrow> bool" where
  "containsYield source = list_ex mentionsYield source"

text \<open>
  The fields of \<open>IntermediateScript\<close> the generator reads; \<open>scriptYields\<close> is its \<open>yields\<close>
  flag.  \<open>ir.procedures\<close> maps a variant to its script.
\<close>

record IntermediateScript =
  stack :: "IntermediateStackBlock list option"
  isProcedure :: bool
  procedureCode :: string
  arguments :: "string list"
  isWarp :: bool
  scriptYields :: bool
  warpTimer :: bool

type_synonym Procedures = "(string \<times> IntermediateScript) list"

text \<open>
  A \<open>Frame\<close> is \<open>(isLoop, isLastBlock)\<close>; the list of frames has the innermost first.
\<close>

type_synonym Frame = "bool \<times> bool"

fun isLastBlockInLoop :: "Frame list \<Rightarrow> bool" where
  "isLastBlockInLoop [] = False"
| "isLastBlockInLoop ((isLoop, isLastBlock) # frames) =
     (if \<not> isLastBlock then False else if isLoop then True else isLastBlockInLoop frames)"

text \<open>\<open>yielded\<close> throws when the script is not marked as yielding.\<close>

definition yielded :: "IntermediateScript \<Rightarrow> js list \<Rightarrow> error + js list" where
  "yielded script source = (if \<not> scriptYields script then Inl ScriptYielded else Inr source)"

text \<open>\<open>retire\<close> appends its text and never calls \<open>yielded\<close>.\<close>

definition retire :: "IntermediateScript \<Rightarrow> js list \<Rightarrow> js list" where
  "retire script source =
     (if isProcedure script then source @ [Text ''retire(); yield;\<newline>'']
      else source @ [Text ''retire(); return;\<newline>''])"

definition yieldNotWarp :: "IntermediateScript \<Rightarrow> js list \<Rightarrow> error + js list" where
  "yieldNotWarp script source =
     (if \<not> isWarp script then yielded script (source @ [Text ''yield;\<newline>''])
      else Inr source)"

definition yieldStuckOrNotWarp :: "IntermediateScript \<Rightarrow> js list \<Rightarrow> error + js list" where
  "yieldStuckOrNotWarp script source =
     yielded script
       (if isWarp script then source @ [Text ''if (isStuck()) yield;\<newline>'']
        else source @ [Text ''yield;\<newline>''])"

definition yieldLoop :: "IntermediateScript \<Rightarrow> js list \<Rightarrow> error + js list" where
  "yieldLoop script source =
     (if warpTimer script then yieldStuckOrNotWarp script source
      else yieldNotWarp script source)"

text \<open>Sequencing: an error ends the compilation.\<close>

definition andThen :: "error + 'a \<Rightarrow> ('a \<Rightarrow> error + 'b) \<Rightarrow> error + 'b" where
  "andThen r f = (case r of Inl e \<Rightarrow> Inl e | Inr x \<Rightarrow> f x)"

lemma andThen_cong [fundef_cong]:
  "r = r' \<Longrightarrow> (\<And>x. r' = Inr x \<Longrightarrow> f x = f' x) \<Longrightarrow> andThen r f = andThen r' f'"
  by (auto simp: andThen_def split: sum.splits)

text \<open>
  \<open>descendStackedBlock\<close> for the opcodes without a nested stack.  \<open>ADDON_CALL\<close> and
  \<open>COMPATIBILITY_LAYER\<close> append their \<open>yield*\<close> without calling \<open>yielded\<close>.
\<close>

definition descendPlain ::
  "IntermediateScript \<Rightarrow> Frame list \<Rightarrow> PlainOpcode \<Rightarrow> IntermediateInput list \<Rightarrow> js list \<Rightarrow> error + js list" where
  "descendPlain script frames opc ins source =
     (case opc of
        ADDON_CALL \<Rightarrow>
          Inr (source @ [Text ''yield* executeInCompatibilityLayer(''] @ map Expr ins
                 @ [Text '', '', Name, Text ''.callback, '', Name, Text '', false, '', Name, Text '');\<newline>''])
      | COMPATIBILITY_LAYER \<Rightarrow>
          (let isLastInLoop = isLastBlockInLoop frames;
               call = [Text ''yield* executeInCompatibilityLayer({''] @ map Expr ins
                      @ [Text ''}, '', Name, Text '', '', Name, Text '', '', Name, Text '', null)'', Text '';\<newline>'']
           in Inr (source @ call @
                (if isLastInLoop
                 then [Text ''if (hasResumedFromPromise) {hasResumedFromPromise = false;continue;}\<newline>'']
                 else [])))
      | CONTROL_CLONE_DELETE \<Rightarrow>
          Inr (retire script
                 (source @ [Text ''if (!target.isOriginal) {\<newline>'',
                            Text ''  runtime.disposeTarget(target);\<newline>'',
                            Text ''  runtime.stopForTarget(target);\<newline>''])
               @ [Text ''}\<newline>''])
      | CONTROL_STOP_ALL \<Rightarrow> Inr (retire script (source @ [Text ''runtime.stopAll();\<newline>'']))
      | CONTROL_STOP_OTHERS \<Rightarrow> Inr (source @ [Text ''runtime.stopForTarget(target, thread);\<newline>''])
      | CONTROL_STOP_SCRIPT \<Rightarrow>
          (if isProcedure script then Inr (source @ [Text ''return;\<newline>''])
           else Inr (retire script source))
      | CONTROL_WAIT \<Rightarrow>
          andThen (yieldNotWarp script
                     (source @ [Text ''thread.timer = timer();\<newline>'', Text ''var '', Name,
                                Text '' = Math.max(0, 1000 * ''] @ map Expr ins
                             @ [Text '');\<newline>'', Text ''runtime.requestRedraw();\<newline>'']))
            (\<lambda>source1.
               andThen (yieldStuckOrNotWarp script
                          (source1 @ [Text ''while (thread.timer.timeElapsed() < '', Name, Text '') {\<newline>'']))
                 (\<lambda>source2. Inr (source2 @ [Text ''}\<newline>'', Text ''thread.timer = null;\<newline>''])))
      | CONTROL_WAIT_UNTIL \<Rightarrow>
          andThen (yieldStuckOrNotWarp script
                     (source @ [Text ''while (!''] @ map Expr ins @ [Text '') {\<newline>'']))
            (\<lambda>source1. Inr (source1 @ [Text ''}\<newline>'']))
      | EVENT_BROADCAST \<Rightarrow>
          Inr (source @ [Text ''startHats('', Name, Text '', { BROADCAST_OPTION: ''] @ map Expr ins
                 @ [Text '' });\<newline>''])
      | EVENT_BROADCAST_AND_WAIT \<Rightarrow>
          yielded script
            (source @ [Text ''yield* waitThreads(startHats('', Name, Text '', { BROADCAST_OPTION: '']
               @ map Expr ins @ [Text '' }));\<newline>''])
      | NOP \<Rightarrow> Inr source
      | OTHER_STACK name \<Rightarrow> Inr (source @ [Name] @ map Expr ins))"

text \<open>
  The \<open>PROCEDURE_CALL\<close> case: nothing for a procedure without a stack; a yield first on
  direct recursion outside warp mode; \<open>yield*\<close> before the call of a yielding
  procedure, which throws when the calling script is not marked as yielding.
\<close>

definition descendProcedureCall ::
  "IntermediateScript \<Rightarrow> Procedures \<Rightarrow> string \<Rightarrow> string \<Rightarrow> IntermediateInput list \<Rightarrow> js list \<Rightarrow> error + js list" where
  "descendProcedureCall script procedures code variant args source =
     (case map_of procedures variant of
        None \<Rightarrow> Inl (MissingProcedure variant)
      | Some procedureData \<Rightarrow>
          if stack procedureData = None then Inr source
          else
            andThen (if \<not> isWarp script \<and> code = procedureCode script
                     then yieldNotWarp script source else Inr source)
              (\<lambda>source1.
                 andThen (if scriptYields procedureData
                          then (if \<not> scriptYields script then Inl YieldingProcedure
                                else Inr (source1 @ [Text ''yield* '']))
                          else Inr source1)
                   (\<lambda>source2.
                      Inr (source2 @ [Text ''thread.procedures['', Name, Text ''](''] 
                             @ (if arguments procedureData \<noteq> [] then map Expr args else [])
                             @ [Text '');\<newline>'']))))"

text \<open>
  \<open>descendStackedBlock\<close> and \<open>descendStack\<close>.  \<open>descendStack\<close> pushes a frame for the
  stack and marks it as being at its last block while that block is compiled.
\<close>

fun descendStackedBlock ::
      "IntermediateScript \<Rightarrow> Procedures \<Rightarrow> Frame list \<Rightarrow> IntermediateStackBlock \<Rightarrow> js list \<Rightarrow> error + js list"
  and descendStack ::
      "IntermediateScript \<Rightarrow> Procedures \<Rightarrow> bool \<Rightarrow> Frame list \<Rightarrow> IntermediateStackBlock list \<Rightarrow> js list \<Rightarrow> error + js list"
where
  "descendStackedBlock script procedures frames (VarSet i name v) source =
     Inr (source @ [Name, Text ''.value = '', Expr v, Text '';\<newline>''])"
| "descendStackedBlock script procedures frames (ControlWhile i c w body) source =
     andThen (descendStack script procedures True frames body
                (source @ [Text ''while ('', Expr c, Text '') {\<newline>'']))
       (\<lambda>source1.
          andThen (if w then yieldStuckOrNotWarp script source1 else yieldLoop script source1)
            (\<lambda>source2. Inr (source2 @ [Text ''}\<newline>''])))"
| "descendStackedBlock script procedures frames (ControlFor i x c body) source =
     andThen (descendStack script procedures True frames body
                (source @ [Text ''var '', Name, Text '' = 0; '', Text ''while ('', Name, Text '' < '',
                           Expr c, Text '') { '', Name, Text ''++; '', Name, Text ''.value = '', Name,
                           Text '';\<newline>'']))
       (\<lambda>source1.
          andThen (yieldLoop script source1)
            (\<lambda>source2. Inr (source2 @ [Text ''}\<newline>''])))"
| "descendStackedBlock script procedures frames (ControlRepeat i c body) source =
     andThen (descendStack script procedures True frames body
                (source @ [Text ''for (var '', Name, Text '' = '', Expr c, Text ''; '', Name,
                           Text '' >= 0.5; '', Name, Text ''--) {\<newline>'']))
       (\<lambda>source1.
          andThen (yieldLoop script source1)
            (\<lambda>source2. Inr (source2 @ [Text ''}\<newline>''])))"
| "descendStackedBlock script procedures frames (ControlIfElse i c whenTrue whenFalse) source =
     andThen (descendStack script procedures False frames whenTrue
                (source @ [Text ''if ('', Expr c, Text '') {\<newline>'']))
       (\<lambda>source1.
          andThen (if whenFalse \<noteq> []
                   then descendStack script procedures False frames whenFalse
                          (source1 @ [Text ''} else {\<newline>''])
                   else Inr source1)
            (\<lambda>source2. Inr (source2 @ [Text ''}\<newline>''])))"
| "descendStackedBlock script procedures frames (ProcedureCall i code variant args) source =
     descendProcedureCall script procedures code variant args source"
| "descendStackedBlock script procedures frames (PlainBlock i opc ins) source =
     descendPlain script frames opc ins source"
| "descendStack script procedures isLoop frames [] source = Inr source"
| "descendStack script procedures isLoop frames (block # rest) source =
     andThen (descendStackedBlock script procedures ((isLoop, rest = []) # frames) block source)
       (\<lambda>source1. descendStack script procedures isLoop frames rest source1)"

text \<open>
  \<open>compile\<close> with \<open>createScriptFactory\<close>: whether the function is a generator
  (\<open>function*\<close>), and its body, which ends with \<open>retire();\<close> outside procedures.
\<close>

record Compiled =
  isGenerator :: bool
  functionBody :: "js list"

definition compile :: "IntermediateScript \<Rightarrow> Procedures \<Rightarrow> error + Compiled" where
  "compile script procedures =
     andThen (case stack script of
                None \<Rightarrow> Inr []
              | Some blocks \<Rightarrow> descendStack script procedures False [] blocks [])
       (\<lambda>source.
          Inr \<lparr> isGenerator = scriptYields script,
                functionBody = source @ (if \<not> isProcedure script then [Text ''retire();\<newline>''] else []) \<rparr>)"

text \<open>
  The blocks whose yield the generator writes without the check of \<open>yielded\<close>: addon
  and compatibility-layer calls, \<open>retire\<close> inside a procedure (stop all, delete this
  clone), and any block with a compatibility-layer input.
\<close>

fun uncheckedPlain :: "IntermediateScript \<Rightarrow> PlainOpcode \<Rightarrow> bool" where
  "uncheckedPlain script ADDON_CALL = True"
| "uncheckedPlain script COMPATIBILITY_LAYER = True"
| "uncheckedPlain script CONTROL_CLONE_DELETE = isProcedure script"
| "uncheckedPlain script CONTROL_STOP_ALL = isProcedure script"
| "uncheckedPlain script opc = False"

fun uncheckedYield :: "IntermediateScript \<Rightarrow> IntermediateStackBlock \<Rightarrow> bool" where
  "uncheckedYield script (VarSet i name v) = inputYields v"
| "uncheckedYield script (ControlWhile i c w body) =
     (inputYields c \<or> list_ex (uncheckedYield script) body)"
| "uncheckedYield script (ControlFor i x c body) =
     (inputYields c \<or> list_ex (uncheckedYield script) body)"
| "uncheckedYield script (ControlRepeat i c body) =
     (inputYields c \<or> list_ex (uncheckedYield script) body)"
| "uncheckedYield script (ControlIfElse i c whenTrue whenFalse) =
     (inputYields c \<or> list_ex (uncheckedYield script) whenTrue
      \<or> list_ex (uncheckedYield script) whenFalse)"
| "uncheckedYield script (ProcedureCall i code variant args) = list_ex inputYields args"
| "uncheckedYield script (PlainBlock i opc ins) =
     (uncheckedPlain script opc \<or> list_ex inputYields ins)"

subsection \<open>Equality\<close>

text \<open>
  \<open>isSafeInputForEqualsOptimization\<close> of \<open>jsgen.js\<close>, and the order of the tests in its
  \<open>OP_EQUALS\<close> case; \<open>EqualsRule\<close> names the branch taken.  \<open>BothNumbers\<close> and
  \<open>SafeConstant\<close> both emit \<open>===\<close> on the operands cast to \<open>NUMBER\<close>.  The value of
  \<open>InputType.NUMBER_INTERPRETABLE\<close> is not among the sources; it is a parameter.
\<close>

definition isSafeInputForEqualsOptimization :: "host \<Rightarrow> IntermediateInput \<Rightarrow> bool" where
  "isSafeInputForEqualsOptimization h input =
     (case input of
        Constant t v \<Rightarrow>
          if isAlwaysType input NUMBER \<or> isAlwaysType input STRING_NUM
          then js_strict_ne_zero (toNumber h v)
          else False
      | _ \<Rightarrow> False)"

datatype EqualsRule = BothNumbers | SafeConstant | NeverNumber | Fallback

fun strictNumericEquals :: "EqualsRule \<Rightarrow> bool" where
  "strictNumericEquals BothNumbers = True"
| "strictNumericEquals SafeConstant = True"
| "strictNumericEquals r = False"

definition equalsRule :: "host \<Rightarrow> InputType \<Rightarrow> IntermediateInput \<Rightarrow> IntermediateInput \<Rightarrow> EqualsRule" where
  "equalsRule h NUMBER_INTERPRETABLE left right =
     (if isAlwaysType left NUMBER_INTERPRETABLE \<and> isAlwaysType right NUMBER_INTERPRETABLE
      then BothNumbers
      else if isSafeInputForEqualsOptimization h left \<or> isSafeInputForEqualsOptimization h right
      then SafeConstant
      else if \<not> isSometimesType left NUMBER_INTERPRETABLE
              \<or> \<not> isSometimesType right NUMBER_INTERPRETABLE
      then NeverNumber
      else Fallback)"

text \<open>
  The older generator (the unnamed revision of \<open>jsgen.js\<close>): its inputs are
  \<open>TypedInput\<close>, \<open>ConstantInput\<close> or \<open>VariableInput\<close> (with the input the variable was last
  set to, if known), its \<open>isSafeConstantForEqualsOptimization\<close> and its \<open>OP_EQUALS\<close> case.
\<close>

datatype ValueType =
  ValueNumber | ValueString | ValueBoolean | ValueUnknown | ValueNumberOrNaN

datatype GeneratedInput =
    TypedInput ValueType
  | ConstantInput jsval
  | VariableInput "GeneratedInput option"

fun isNeverNumber :: "host \<Rightarrow> GeneratedInput \<Rightarrow> bool" where
  "isNeverNumber h (TypedInput t) = False"
| "isNeverNumber h (ConstantInput v) = (toNumber h v = NaN)"
| "isNeverNumber h (VariableInput None) = False"
| "isNeverNumber h (VariableInput (Some i)) = isNeverNumber h i"

fun isAlwaysNumber :: "host \<Rightarrow> GeneratedInput \<Rightarrow> bool" where
  "isAlwaysNumber h (TypedInput t) = (t = ValueNumber)"
| "isAlwaysNumber h (ConstantInput v) =
     (if toNumber h v = NaN then False
      else if \<not> js_strict_ne_zero (toNumber h v) then trimString h (valueToString h v) \<noteq> ''''
      else True)"
| "isAlwaysNumber h (VariableInput None) = False"
| "isAlwaysNumber h (VariableInput (Some i)) = isAlwaysNumber h i"

fun isConstantInput :: "GeneratedInput \<Rightarrow> bool" where
  "isConstantInput (ConstantInput v) = True"
| "isConstantInput i = False"

definition isSafeConstantForEqualsOptimization :: "host \<Rightarrow> jsval \<Rightarrow> bool" where
  "isSafeConstantForEqualsOptimization h constantValue =
     (let numberValue = toNumber h constantValue
      in if \<not> js_truthy_num numberValue then False
         else numberToString h numberValue = valueToString h constantValue)"

fun isSafeConstant :: "host \<Rightarrow> GeneratedInput \<Rightarrow> bool" where
  "isSafeConstant h (ConstantInput v) = isSafeConstantForEqualsOptimization h v"
| "isSafeConstant h i = False"

definition oldEqualsRule :: "host \<Rightarrow> GeneratedInput \<Rightarrow> GeneratedInput \<Rightarrow> EqualsRule" where
  "oldEqualsRule h left right =
     (if isNeverNumber h left \<or> isNeverNumber h right then NeverNumber
      else if isAlwaysNumber h left \<and> isAlwaysNumber h right then BothNumbers
      else if isAlwaysNumber h left \<and> isConstantInput left \<and> isSafeConstant h left then SafeConstant
      else if isAlwaysNumber h right \<and> isConstantInput right \<and> isSafeConstant h right then SafeConstant
      else Fallback)"

section \<open>Example scripts\<close>

definition literal :: "jsnum \<Rightarrow> IntermediateInput" where
  "literal n = Constant (getNumberInputType n) (JNum n)"

definition zeroByZero :: IntermediateInput where
  "zeroByZero = Arith OP_DIVIDE NUMBER_OR_NAN (literal (Fin 0)) (literal (Fin 0))"

definition nanPlusNan :: IntermediateInput where
  "nanPlusNan = Arith OP_ADD NUMBER_OR_NAN zeroByZero zeroByZero"

definition countingLoop :: "IntermediateStackBlock" where
  "countingLoop =
     ControlWhile (fresh False) (VarGet ANY ''p'') False
       [VarSet (fresh False) ''y''
          (Arith OP_ADD NUMBER_OR_NAN (Cast CAST_NUMBER NUMBER (VarGet ANY ''y'')) (literal (Fin 1)))]"

definition branchBlock :: "IntermediateStackBlock" where
  "branchBlock =
     ControlIfElse (fresh False) (VarGet ANY ''p'')
       [VarSet (fresh False) ''a'' (literal (Fin 1))]
       [VarSet (fresh False) ''b'' (literal (Fin 1))]"

definition emptyScript :: IntermediateScript where
  "emptyScript =
     \<lparr> stack = Some [], isProcedure = False, procedureCode = '''', arguments = [],
       isWarp = False, scriptYields = True, warpTimer = False \<rparr>"

definition warpProcedure :: IntermediateScript where
  "warpProcedure =
     \<lparr> stack = Some [ControlRepeat (fresh False) (Constant NUMBER_POS (JNum (Fin 10)))
                       [VarSet (fresh False) ''x'' (Constant NUMBER_POS (JNum (Fin 1)))]],
       isProcedure = True, procedureCode = ''count'', arguments = [],
       isWarp = True, scriptYields = False, warpTimer = False \<rparr>"

definition stoppingProcedure :: IntermediateScript where
  "stoppingProcedure =
     \<lparr> stack = Some [PlainBlock (fresh False) CONTROL_STOP_ALL []],
       isProcedure = True, procedureCode = ''halt'', arguments = [],
       isWarp = True, scriptYields = False, warpTimer = False \<rparr>"

section \<open>Properties\<close>

subsection \<open>Literal types and compile-time casts\<close>

text \<open>
  Claim C3 reads: literal inference is precise; \<open>getNumberInputType\<close> tells integral from
  fractional literals and types \<open>-0\<close> as \<open>NEG_ZERO\<close>.  The function has no such tests: it
  answers with the group \<open>NUMBER_POS\<close> for the integer 1 just as for the fraction 1/2, and
  \<open>NUMBER_POS\<close> is not the atom \<open>NUMBER_POS_INT\<close>.
\<close>

theorem getNumberInputType_not_precise:
  "getNumberInputType (Fin 1) = NUMBER_POS
   \<and> getNumberInputType (Fin (1 / 2)) = NUMBER_POS
   \<and> NUMBER_POS \<noteq> NUMBER_POS_INT \<and> NUMBER_POS \<noteq> NUMBER_POS_FRACT"
  by (simp add: getNumberInputType_def InputType_defs)

text \<open>
  Claim C3, amended: \<open>getNumberInputType\<close> returns \<open>NAN\<close> for NaN, \<open>POS_INF\<close> and \<open>NEG_INF\<close>
  for the infinities, \<open>ZERO\<close> for \<open>+0\<close>, and for a finite non-zero number the group of its
  sign, \<open>NUMBER_POS\<close> or \<open>NUMBER_NEG\<close>, whether it is integral or not.
\<close>

theorem getNumberInputType_by_sign:
  "getNumberInputType NaN = NUMBER_NAN
   \<and> getNumberInputType PosInf = NUMBER_POS_INF
   \<and> getNumberInputType NegInf = NUMBER_NEG_INF
   \<and> getNumberInputType (Fin 0) = NUMBER_ZERO
   \<and> (\<forall>r. 0 < r \<longrightarrow> getNumberInputType (Fin r) = NUMBER_POS)
   \<and> (\<forall>r. r < 0 \<longrightarrow> getNumberInputType (Fin r) = NUMBER_NEG)"
  by (simp add: getNumberInputType_def)

theorem getNumberInputType_by_sign_witness:
  "getNumberInputType (Fin (3 / 2)) = NUMBER_POS \<and> getNumberInputType (Fin (- 2)) = NUMBER_NEG"
  using getNumberInputType_by_sign by simp

text \<open>
  Negative zero is neither below nor above zero and is not NaN, so it falls through to the
  last line of \<open>getNumberInputType\<close> and is typed like \<open>+0\<close>.
\<close>

lemma getNumberInputType_negative_zero:
  "getNumberInputType NegZero = NUMBER_ZERO \<and> NUMBER_ZERO \<noteq> NUMBER_NEG_ZERO"
  by (simp add: getNumberInputType_def InputType_defs)

text \<open>
  Claim C10: an input whose type is the empty bitset is always of every type and
  sometimes of none, so \<open>isAlwaysType\<close> does not imply \<open>isSometimesType\<close>; and \<open>toType\<close>
  returns such an input unchanged for each of the four target types it supports.
\<close>

theorem empty_type_always_never_unchanged:
  assumes "type_of inp = 0"
  shows "(\<forall>T. isAlwaysType inp T \<and> \<not> isSometimesType inp T)
         \<and> toType h inp BOOLEAN = Inr inp \<and> toType h inp NUMBER = Inr inp
         \<and> toType h inp NUMBER_OR_NAN = Inr inp \<and> toType h inp STRING = Inr inp"
proof -
  have always: "isAlwaysType inp T" for T
    using assms by (simp add: isAlwaysType_def)
  have never: "\<not> isSometimesType inp T" for T
    using assms by (simp add: isSometimesType_def)
  have same: "toType h inp T = Inr inp" if "castOpcodeFor T \<noteq> None" for T
    using that always [of T] by (auto simp: toType_def)
  have "castOpcodeFor BOOLEAN \<noteq> None" "castOpcodeFor NUMBER \<noteq> None"
       "castOpcodeFor NUMBER_OR_NAN \<noteq> None" "castOpcodeFor STRING \<noteq> None"
    by (simp_all add: castOpcodeFor_def)
  with always never same show ?thesis by blast
qed

theorem empty_type_always_never_unchanged_witness:
  "isAlwaysType (VarGet 0 ''x'') NUMBER \<and> \<not> isSometimesType (VarGet 0 ''x'') NUMBER
   \<and> toType exampleHost (VarGet 0 ''x'') STRING = Inr (VarGet 0 ''x'')"
  using empty_type_always_never_unchanged [where inp = "VarGet 0 ''x''" and h = exampleHost] by simp

text \<open>
  Claim C1 reads: \<open>toType(NUMBER_OR_NAN)\<close> on a constant whose literal coerces to NaN
  stores NaN.  The string constant \<open>abc\<close> coerces to NaN, and the cast stores 0.
\<close>

theorem toType_number_or_nan_stores_zero:
  "toNumber exampleHost (JStr ''abc'') = NaN
   \<and> toType exampleHost (Constant STRING (JStr ''abc'')) NUMBER_OR_NAN
       = Inr (Constant NUMBER (JNum (Fin 0)))"
  by (simp add: toType_def isAlwaysType_def castOpcodeFor_def InputType_defs
      castConstantNumber_def exampleHost_def digitsToNumber_def is_digit_def)

text \<open>
  Claim C1, amended: for the targets \<open>NUMBER\<close> and \<open>NUMBER_OR_NAN\<close> alike, \<open>toType\<close> returns
  a constant that is already always of the target type unchanged, and otherwise stores
  the numeric coercion of the literal with NaN replaced by 0 and every other number,
  \<open>-0\<close> included, kept; the constant's type becomes \<open>NUMBER\<close>.
\<close>

theorem toType_constant_numeric_cast:
  assumes "T = NUMBER \<or> T = NUMBER_OR_NAN"
  shows "toType h (Constant t v) T =
           (if isAlwaysType (Constant t v) T then Inr (Constant t v)
            else Inr (Constant NUMBER
                   (JNum (if toNumber h v = NaN then Fin 0 else toNumber h v))))"
proof -
  have cast: "castConstantNumber n = (if n = NaN then Fin 0 else n)" for n
    by (cases n) (simp_all add: castConstantNumber_def)
  from assms show ?thesis
    by (auto simp: toType_def castOpcodeFor_def cast InputType_defs)
qed

theorem toType_constant_numeric_cast_witness:
  "toType exampleHost (Constant STRING (JStr ''abc'')) NUMBER = Inr (Constant NUMBER (JNum (Fin 0)))
   \<and> toType exampleHost (Constant ANY (JNum NegZero)) NUMBER_OR_NAN
       = Inr (Constant NUMBER (JNum NegZero))
   \<and> toType exampleHost (Constant NUMBER_NAN (JNum NaN)) NUMBER_OR_NAN
       = Inr (Constant NUMBER_NAN (JNum NaN))"
  using toType_constant_numeric_cast
      [where T = NUMBER and t = STRING and v = "JStr ''abc''" and h = exampleHost]
    toType_constant_numeric_cast
      [where T = NUMBER_OR_NAN and t = ANY and v = "JNum NegZero" and h = exampleHost]
    toType_constant_numeric_cast
      [where T = NUMBER_OR_NAN and t = NUMBER_NAN and v = "JNum NaN" and h = exampleHost]
  by (simp add: isAlwaysType_def InputType_defs exampleHost_def digitsToNumber_def is_digit_def)

subsection \<open>The transfer function of division\<close>

text \<open>
  Claim C2 reads: for \<open>1 / 0\<close> the analyzer's type contains \<open>POS_INF\<close> and not \<open>NAN\<close>.
  With the literal types \<open>getNumberInputType\<close> gives, the \<open>NAN\<close> bit is in the result.
\<close>

theorem divide_one_by_zero_has_nan:
  "analyzeInputBlock
     (Arith OP_DIVIDE NUMBER_OR_NAN
        (Constant (getNumberInputType (Fin 1)) (JNum (Fin 1)))
        (Constant (getNumberInputType (Fin 0)) (JNum (Fin 0)))) []
   AND NUMBER_NAN \<noteq> 0"
  by (simp add: getNumberInputType_def analyzeDivide_def has_def bits_if_def InputType_defs)

text \<open>
  Claim C2, amended: for \<open>1 / 0\<close>, in every state, the analyzer's type is exactly
  \<open>POS_INF \<union> NAN\<close>: the rule \<open>REAL / 0 = NaN\<close> of the source adds \<open>NAN\<close> for every dividend
  that may be finite, not only for \<open>0 / 0\<close>.
\<close>

theorem divide_one_by_zero_type:
  "analyzeInputBlock
     (Arith OP_DIVIDE t
        (Constant (getNumberInputType (Fin 1)) (JNum (Fin 1)))
        (Constant (getNumberInputType (Fin 0)) (JNum (Fin 0)))) state
   = NUMBER_POS_INF OR NUMBER_NAN"
  by (simp add: getNumberInputType_def analyzeDivide_def has_def bits_if_def InputType_defs)

subsection \<open>Lattice elements are kept\<close>

lemma in_lattice_top: "in_lattice ANY" by (simp add: in_lattice_def)
lemma in_lattice_0: "in_lattice 0" by (simp add: in_lattice_def)
lemma in_lattice_or: "in_lattice a \<Longrightarrow> in_lattice b \<Longrightarrow> in_lattice (a OR b)"
  by (simp add: in_lattice_def word_ao_dist)
lemma in_lattice_bits_if: "in_lattice m \<Longrightarrow> in_lattice (bits_if c m)"
  by (simp add: bits_if_def in_lattice_0)
lemma in_lattice_atoms:
  "in_lattice NUMBER_NAN" "in_lattice NUMBER_POS_INT" "in_lattice NUMBER_POS_INF" "in_lattice NUMBER_POS_FRACT"
  "in_lattice NUMBER_NEG_INT" "in_lattice NUMBER_NEG_INF" "in_lattice NUMBER_NEG_FRACT" "in_lattice NUMBER_ZERO"
  "in_lattice NUMBER_NEG_ZERO" "in_lattice NUMBER_POS" "in_lattice NUMBER_NEG" "in_lattice NUMBER" "in_lattice NUMBER_OR_NAN"
  by (simp_all add: in_lattice_def InputType_defs)

lemma in_lattice_le: "in_lattice t \<Longrightarrow> unat t \<le> unat ANY"
  unfolding in_lattice_def by (metis word_and_le1 word_le_nat_alt)

lemma or_ANY: "in_lattice t \<Longrightarrow> ANY OR t = ANY"
  unfolding in_lattice_def by (metis word_bw_comms(1) word_bw_comms(2) word_ao_absorbs(2) )

lemma analyzeArith_within: "in_lattice (analyzeArith opc l r)"
  by (cases opc)
     (simp_all add: analyzeAdd_def analyzeSubtract_def analyzeMultiply_def analyzeDivide_def
        Let_def in_lattice_or in_lattice_bits_if in_lattice_atoms)

lemma getVariableType_within: "state_within s \<Longrightarrow> in_lattice (getVariableType s x)"
  by (induction s) (auto simp: state_within_def getVariableType_def in_lattice_top)

lemma analyzeInputBlock_within:
  "types_within i \<Longrightarrow> state_within s \<Longrightarrow> in_lattice (analyzeInputBlock i s)"
  by (induction i s rule: analyzeInputBlock.induct)
     (auto simp: Let_def getVariableType_within analyzeArith_within in_lattice_atoms)


subsection \<open>Joining states uses up slack\<close>

lemma state_within_update:
  "state_within s \<Longrightarrow> in_lattice t \<Longrightarrow> state_within (AList.update k t s)"
  by (induction s) (auto simp: state_within_def)

lemma setVariableType_within:
  "state_within s \<Longrightarrow> in_lattice t \<Longrightarrow> state_within (snd (setVariableType s k t))"
  by (simp add: setVariableType_def state_within_update)

lemma clear_within: "state_within (snd (clear s))"
  by (simp add: clear_def state_within_def)

lemma or_grows: "in_lattice (a OR b) \<Longrightarrow> unat ANY - unat (a OR b) \<le> unat ANY - unat a"
  using le_word_or2 [of a b] by (simp add: word_le_nat_alt)

lemma or_grows_strict:
  assumes "in_lattice (a OR b)" "a \<noteq> a OR b"
  shows "unat ANY - unat (a OR b) < unat ANY - unat a"
proof -
  have "a \<le> a OR b" by (rule le_word_or2)
  with assms(2) have "a < a OR b" by simp
  then have "unat a < unat (a OR b)" by (simp add: word_less_nat_alt)
  moreover have "unat (a OR b) \<le> unat ANY" using assms(1) by (rule in_lattice_le)
  ultimately show ?thesis by linarith
qed

lemma update_join_slack:
  assumes "state_within s" "in_lattice v"
  shows "slack (AList.update k (getVariableType s k OR v) s) \<le> slack s
         \<and> (getVariableType s k \<noteq> getVariableType s k OR v
              \<longrightarrow> slack (AList.update k (getVariableType s k OR v) s) < slack s)"
  using assms(1)
proof (induction s)
  case Nil
  then show ?case
    using assms(2) by (simp add: slack_def getVariableType_def or_ANY)
next
  case (Cons p s)
  obtain a b where p: "p = (a, b)" by (cases p)
  from Cons.prems p have b: "in_lattice b" and s: "state_within s"
    by (simp_all add: state_within_def)
  show ?case
  proof (cases "a = k")
    case True
    have "in_lattice (b OR v)" using b assms(2) by (rule in_lattice_or)
    then show ?thesis
      using True p or_grows [of b v] or_grows_strict [of b v]
      by (auto simp: slack_def getVariableType_def)
  next
    case False
    then have get: "getVariableType ((a, b) # s) k = getVariableType s k"
      by (simp add: getVariableType_def)
    show ?thesis
      using False p Cons.IH [OF s] by (auto simp: get slack_def)
  qed
qed

lemma or_join_slack:
  "state_within this \<Longrightarrow> state_within other \<Longrightarrow> or_join other this m = (this', m') \<Longrightarrow>
     state_within this' \<and> slack this' \<le> slack this \<and> (m' \<longrightarrow> m \<or> slack this' < slack this)"
proof (induction other arbitrary: this m)
  case Nil
  then show ?case by simp
next
  case (Cons p other)
  obtain k v where p: "p = (k, v)" by (cases p)
  from Cons.prems(2) p have v: "in_lattice v" and other: "state_within other"
    by (simp_all add: state_within_def)
  let ?cur = "getVariableType this k"
  let ?this1 = "AList.update k (?cur OR v) this"
  have cur: "in_lattice ?cur" using Cons.prems(1) by (rule getVariableType_within)
  have this1: "state_within ?this1"
    using Cons.prems(1) in_lattice_or [OF cur v] by (rule state_within_update)
  have step: "or_join other ?this1 (m \<or> ?cur \<noteq> ?cur OR v) = (this', m')"
    using Cons.prems(3) p by (simp add: Let_def)
  from Cons.IH [OF this1 other step] update_join_slack [OF Cons.prems(1) v, of k]
  show ?case by auto
qed

lemma or_missing_slack:
  "state_within this \<Longrightarrow> or_missing other this = (this', m') \<Longrightarrow>
     state_within this' \<and> slack this' \<le> slack this \<and> (m' \<longrightarrow> slack this' < slack this)"
proof (induction this arbitrary: this' m')
  case Nil
  then show ?case by (auto simp: or_missing_def state_within_def)
next
  case (Cons p this)
  obtain k t where p: "p = (k, t)" by (cases p)
  from Cons.prems(1) p have t: "in_lattice t" and rest: "state_within this"
    by (simp_all add: state_within_def)
  obtain r mr where r: "or_missing other this = (r, mr)" by (cases "or_missing other this")
  note IH = Cons.IH [OF rest r]
  have le: "unat t \<le> unat ANY" using t by (rule in_lattice_le)
  have lt: "unat t < unat ANY" if "t \<noteq> ANY"
    using le that by (metis le_neq_implies_less word_unat_eq_iff)
  show ?case
    using Cons.prems(2) p r IH lt t
    by (auto simp: or_missing_def slack_def state_within_def in_lattice_top split: if_splits)
qed

lemma or_state_slack:
  assumes "state_within this" "state_within other" "or_state this other = (m, this')"
  shows "state_within this' \<and> (m \<longrightarrow> slack this' < slack this)"
proof -
  obtain j m1 where j: "or_join other this False = (j, m1)" by (cases "or_join other this False")
  obtain r m2 where r: "or_missing other j = (r, m2)" by (cases "or_missing other j")
  from assms(3) j r have res: "this' = r" "m = (m1 \<or> m2)" by (simp_all add: or_state_def)
  from or_join_slack [OF assms(1,2) j] or_missing_slack [OF _ r] res
  show ?thesis by auto
qed


subsection \<open>The analyzer keeps well-formedness and sizes\<close>

lemma sound_stackD:
  "sound_stack A \<Longrightarrow> list_all block_within bs \<Longrightarrow> state_within s \<Longrightarrow> A bs s = Some (m, bs', s')
     \<Longrightarrow> list_all block_within bs' \<and> state_within s' \<and> size_list size bs' = size_list size bs"
  unfolding sound_stack_def by blast

lemma block_within_set_info: "block_within (set_info i b) = block_within b"
  by (cases b) simp_all

lemma size_set_info: "size (set_info i b) = size b"
  by (cases b) simp_all

lemma recordExit_keeps:
  "block_within (recordExit c s b) = block_within b" "size (recordExit c s b) = size b"
  by (simp_all add: recordExit_def block_within_set_info size_set_info split: option.split)

lemma yieldClear_within: "state_within s \<Longrightarrow> state_within (snd (yieldClear y c s))"
  by (simp add: yieldClear_def clear_within)

lemma sound_analyzeStackWith:
  assumes "sound_block A"
  shows "sound_stack (analyzeStackWith A)"
  unfolding sound_stack_def
proof (intro allI impI)
  fix bs s m bs' s'
  assume "list_all block_within bs" "state_within s" "analyzeStackWith A bs s = Some (m, bs', s')"
  then show "list_all block_within bs' \<and> state_within s' \<and> size_list size bs' = size_list size bs"
  proof (induction bs arbitrary: s m bs' s')
    case Nil
    then show ?case by simp
  next
    case (Cons b rest)
    from Cons.prems(3) obtain c0 b1 s1 where a: "A b s = Some (c0, b1, s1)"
      by (auto split: option.splits)
    obtain sc s2 where y: "yieldClear (yields (info b1)) c0 s1 = (sc, s2)"
      by (cases "yieldClear (yields (info b1)) c0 s1")
    from Cons.prems(3) a y obtain mr rest' where
      r: "analyzeStackWith A rest s2 = Some (mr, rest', s')" and
      bs': "bs' = recordExit sc s2 b1 # rest'"
      by (auto split: option.splits)
    from Cons.prems(1) have b: "block_within b" and rest: "list_all block_within rest" by simp_all
    from assms a b Cons.prems(2) have b1: "block_within b1" "state_within s1" "size b1 = size b"
      unfolding sound_block_def by blast+
    have s2: "state_within s2" using yieldClear_within [OF b1(2), of "yields (info b1)" c0] y by simp
    from Cons.IH [OF rest s2 r] b1 bs' show ?case by (simp add: recordExit_keeps)
  qed
qed

lemma sound_doWhileWith:
  assumes "sound_stack A"
  shows "sound_stack (doWhileWith A n)"
  unfolding sound_stack_def
proof (intro allI impI)
  fix bs s m bs' s'
  assume "list_all block_within bs" "state_within s" "doWhileWith A n bs s = Some (m, bs', s')"
  then show "list_all block_within bs' \<and> state_within s' \<and> size_list size bs' = size_list size bs"
  proof (induction n arbitrary: bs s)
    case 0
    then show ?case by simp
  next
    case (Suc n)
    from Suc.prems(3) obtain m1 bs1 new where a: "A bs (clone s) = Some (m1, bs1, new)"
      by (auto split: option.splits)
    obtain keep s1 where o: "or_state s new = (keep, s1)" by (cases "or_state s new")
    from assms a Suc.prems(1,2) have bs1: "list_all block_within bs1" "state_within new"
        "size_list size bs1 = size_list size bs"
      unfolding sound_stack_def clone_def by blast+
    from or_state_slack [OF Suc.prems(2) bs1(2) o] have s1: "state_within s1" by simp
    show ?case
    proof (cases keep)
      case True
      with Suc.prems(3) a o have "doWhileWith A n bs1 s1 = Some (m, bs', s')" by simp
      from Suc.IH [OF bs1(1) s1 this] bs1(3) show ?thesis by simp
    next
      case False
      with Suc.prems(3) a o have "bs' = bs1" "s' = s1" by simp_all
      with bs1 s1 show ?thesis by simp
    qed
  qed
qed

lemma sound_analyzeLoopedStackWith:
  assumes "sound_stack A" "list_all block_within bs" "state_within s"
    "analyzeLoopedStackWith A n bs s i = Some (m, bs', i', s')"
  shows "list_all block_within bs' \<and> state_within s' \<and> size_list size bs' = size_list size bs"
proof (cases "yields i")
  case True
  with assms(4) obtain m1 where a: "A bs (snd (clear s)) = Some (m1, bs', s')"
    by (auto simp: analyzeLoopedStackWith_def split: prod.splits option.splits)
  from assms(1,2) clear_within [of s] a show ?thesis unfolding sound_stack_def by blast
next
  case False
  with assms(4) have a: "doWhileWith A n bs s = Some (m, bs', s')"
    by (auto simp: analyzeLoopedStackWith_def split: option.splits)
  from sound_doWhileWith [OF assms(1), of n] assms(2,3) a show ?thesis
    unfolding sound_stack_def by blast
qed

lemma sound_analyzeStackBlock: "sound_block (analyzeStackBlock n)"
proof (induction n)
  case 0
  then show ?case by (simp add: sound_block_def)
next
  case (Suc n)
  note stack = sound_analyzeStackWith [OF Suc]
  show ?case
    unfolding sound_block_def
  proof (intro allI impI)
    fix b s m b' s'
    assume b: "block_within b" and s: "state_within s"
      and a: "analyzeStackBlock (Suc n) b s = Some (m, b', s')"
    show "block_within b' \<and> state_within s' \<and> size b' = size b"
    proof (cases b)
      case (VarSet i name v)
      with a b s setVariableType_within [OF s analyzeInputBlock_within, of v s name]
      show ?thesis by (auto split: prod.splits)
    next
      case (ControlWhile i c w body)
      with a obtain body' i' where
        l: "analyzeLoopedStackWith (analyzeStackWith (analyzeStackBlock n)) n body s i = Some (m, body', i', s')"
        and b': "b' = ControlWhile i' c w body'"
        by (auto split: option.splits)
      from sound_analyzeLoopedStackWith [OF stack _ s l] b ControlWhile b' show ?thesis by simp
    next
      case (ControlFor i x c body)
      with a obtain body' i' where
        l: "analyzeLoopedStackWith (analyzeStackWith (analyzeStackBlock n)) n body s i = Some (m, body', i', s')"
        and b': "b' = ControlFor i' x c body'"
        by (auto split: option.splits)
      from sound_analyzeLoopedStackWith [OF stack _ s l] b ControlFor b' show ?thesis by simp
    next
      case (ControlRepeat i c body)
      with a obtain body' i' where
        l: "analyzeLoopedStackWith (analyzeStackWith (analyzeStackBlock n)) n body s i = Some (m, body', i', s')"
        and b': "b' = ControlRepeat i' c body'"
        by (auto split: option.splits)
      from sound_analyzeLoopedStackWith [OF stack _ s l] b ControlRepeat b' show ?thesis by simp
    next
      case (ControlIfElse i c whenTrue whenFalse)
      with a obtain m1 wt ts m2 wf s2 where
        t: "analyzeStackWith (analyzeStackBlock n) whenTrue (clone s) = Some (m1, wt, ts)" and
        f: "analyzeStackWith (analyzeStackBlock n) whenFalse s = Some (m2, wf, s2)" and
        b': "b' = ControlIfElse i c wt wf" and
        s': "s' = (if m2 then s2 else snd (or_state s2 ts))"
        by (auto split: option.splits if_splits prod.splits)
      from b ControlIfElse have bt: "list_all block_within whenTrue"
        and bf: "list_all block_within whenFalse" by simp_all
      from s have cs: "state_within (clone s)" by (simp add: clone_def)
      from sound_stackD [OF stack bt cs t] have wt: "list_all block_within wt" "state_within ts"
          "size_list size wt = size_list size whenTrue" by simp_all
      from sound_stackD [OF stack bf s f] have wf: "list_all block_within wf" "state_within s2"
          "size_list size wf = size_list size whenFalse" by simp_all
      have "state_within (snd (or_state s2 ts))"
        using or_state_slack [OF wf(2) wt(2), of "fst (or_state s2 ts)" "snd (or_state s2 ts)"] by simp
      with wt wf b b' s' ControlIfElse show ?thesis by simp
    next
      case (ProcedureCall i code variant args)
      with a b clear_within [of s] show ?thesis by (auto split: prod.splits)
    next
      case (PlainBlock i opc ins)
      with a b s show ?thesis by auto
    qed
  qed
qed


subsection \<open>More fuel does not change a result\<close>

lemma belowD: "below f g \<Longrightarrow> f x y = Some r \<Longrightarrow> g x y = Some r"
  unfolding below_def by blast

lemma below_refl: "below f f"
  by (simp add: below_def)

lemma below_analyzeStackWith:
  assumes "below A A'"
  shows "below (analyzeStackWith A) (analyzeStackWith A')"
  unfolding below_def
proof (intro allI impI)
  fix bs s r
  assume "analyzeStackWith A bs s = Some r"
  then show "analyzeStackWith A' bs s = Some r"
  proof (induction bs arbitrary: s r)
    case Nil
    then show ?case by simp
  next
    case (Cons b rest)
    from Cons.prems obtain c0 b1 s1 where a: "A b s = Some (c0, b1, s1)"
      by (auto split: option.splits)
    obtain sc s2 where y: "yieldClear (yields (info b1)) c0 s1 = (sc, s2)"
      by (cases "yieldClear (yields (info b1)) c0 s1")
    from Cons.prems a y obtain q where r: "analyzeStackWith A rest s2 = Some q"
      by (auto split: option.splits)
    from belowD [OF assms a] Cons.IH [OF r] Cons.prems a y r show ?case by simp
  qed
qed

lemma below_doWhileWith:
  assumes "below A A'"
  shows "doWhileWith A n bs s = Some r \<Longrightarrow> n \<le> n' \<Longrightarrow> doWhileWith A' n' bs s = Some r"
proof (induction n arbitrary: n' bs s)
  case 0
  then show ?case by simp
next
  case (Suc n)
  from Suc.prems(2) obtain k where n': "n' = Suc k" and k: "n \<le> k" by (cases n') auto
  from Suc.prems(1) obtain m1 bs1 new where a: "A bs (clone s) = Some (m1, bs1, new)"
    by (auto split: option.splits)
  obtain keep s1 where o: "or_state s new = (keep, s1)" by (cases "or_state s new")
  show ?case
  proof (cases keep)
    case True
    with Suc.prems(1) a o have "doWhileWith A n bs1 s1 = Some r" by simp
    from Suc.IH [OF this k] belowD [OF assms a] o True n' show ?thesis by simp
  next
    case False
    with Suc.prems(1) a o belowD [OF assms a] n' show ?thesis by simp
  qed
qed

lemma below_analyzeLoopedStackWith:
  assumes "below A A'" "n \<le> n'" "analyzeLoopedStackWith A n bs s i = Some r"
  shows "analyzeLoopedStackWith A' n' bs s i = Some r"
proof (cases "yields i")
  case True
  with assms(3) obtain q where a: "A bs (snd (clear s)) = Some q"
    by (auto simp: analyzeLoopedStackWith_def split: prod.splits option.splits)
  from belowD [OF assms(1) a] assms(3) True a show ?thesis
    by (auto simp: analyzeLoopedStackWith_def split: prod.splits)
next
  case False
  with assms(3) obtain q where a: "doWhileWith A n bs s = Some q"
    by (auto simp: analyzeLoopedStackWith_def split: option.splits)
  from below_doWhileWith [OF assms(1) a assms(2)] assms(3) False a show ?thesis
    by (simp add: analyzeLoopedStackWith_def)
qed

lemma below_analyzeStackBlock_Suc: "below (analyzeStackBlock n) (analyzeStackBlock (Suc n))"
proof (induction n)
  case 0
  then show ?case by (simp add: below_def)
next
  case (Suc n)
  note stack = below_analyzeStackWith [OF Suc]
  note looped = below_analyzeLoopedStackWith [OF stack, of n "Suc n"]
  show ?case
    unfolding below_def
  proof (intro allI impI)
    fix b s r
    assume a: "analyzeStackBlock (Suc n) b s = Some r"
    show "analyzeStackBlock (Suc (Suc n)) b s = Some r"
    proof (cases b)
      case (ControlWhile i c w body)
      with a obtain q where
        l: "analyzeLoopedStackWith (analyzeStackWith (analyzeStackBlock n)) n body s i = Some q"
        by (auto split: option.splits)
      from looped [OF _ l] a l ControlWhile show ?thesis by simp
    next
      case (ControlFor i x c body)
      with a obtain q where
        l: "analyzeLoopedStackWith (analyzeStackWith (analyzeStackBlock n)) n body s i = Some q"
        by (auto split: option.splits)
      from looped [OF _ l] a l ControlFor show ?thesis by simp
    next
      case (ControlRepeat i c body)
      with a obtain q where
        l: "analyzeLoopedStackWith (analyzeStackWith (analyzeStackBlock n)) n body s i = Some q"
        by (auto split: option.splits)
      from looped [OF _ l] a l ControlRepeat show ?thesis by simp
    next
      case (ControlIfElse i c whenTrue whenFalse)
      with a obtain q1 q2 where
        t: "analyzeStackWith (analyzeStackBlock n) whenTrue (clone s) = Some q1" and
        f: "analyzeStackWith (analyzeStackBlock n) whenFalse s = Some q2"
        by (auto split: option.splits)
      from belowD [OF stack t] belowD [OF stack f] a t f ControlIfElse show ?thesis by simp
    qed (use a in simp_all)
  qed
qed

lemma below_analyzeStackBlock: "n \<le> n' \<Longrightarrow> below (analyzeStackBlock n) (analyzeStackBlock n')"
proof (induction n' arbitrary: n)
  case 0
  then show ?case by (simp add: below_refl)
next
  case (Suc n')
  show ?case
  proof (cases "n = Suc n'")
    case True
    then show ?thesis by (simp add: below_refl)
  next
    case False
    with Suc.prems have "n \<le> n'" by simp
    from Suc.IH [OF this] below_analyzeStackBlock_Suc [of n'] show ?thesis
      unfolding below_def by blast
  qed
qed

lemma analyzeStack_mono:
  "n \<le> n' \<Longrightarrow> analyzeStack n bs s = Some r \<Longrightarrow> analyzeStack n' bs s = Some r"
  unfolding analyzeStack_def
  using belowD [OF below_analyzeStackWith [OF below_analyzeStackBlock]] by blast


subsection \<open>The analyzer returns\<close>

lemma sound_analyzeStack: "sound_stack (analyzeStack n)"
  unfolding analyzeStack_def by (rule sound_analyzeStackWith [OF sound_analyzeStackBlock])

lemma sound_blockD:
  "sound_block A \<Longrightarrow> block_within b \<Longrightarrow> state_within s \<Longrightarrow> A b s = Some (m, b', s')
     \<Longrightarrow> block_within b' \<and> state_within s' \<and> size b' = size b"
  unfolding sound_block_def by blast

lemma stack_terminates:
  assumes blocks: "\<And>b s. b \<in> set bs \<Longrightarrow> block_within b \<Longrightarrow> state_within s
      \<Longrightarrow> \<exists>n r. analyzeStackBlock n b s = Some r"
  shows "list_all block_within bs \<Longrightarrow> state_within s \<Longrightarrow> \<exists>n r. analyzeStack n bs s = Some r"
  using blocks
proof (induction bs arbitrary: s)
  case Nil
  have "analyzeStack 0 [] s = Some (False, [], s)" by (simp add: analyzeStack_def)
  then show ?case by blast
next
  case (Cons b rest)
  from Cons.prems(1) have b: "block_within b" and rest: "list_all block_within rest" by simp_all
  from Cons.prems(3) [OF _ b Cons.prems(2)] obtain n1 c0 b1 s1 where
    a: "analyzeStackBlock n1 b s = Some (c0, b1, s1)" by fastforce
  from sound_blockD [OF sound_analyzeStackBlock b Cons.prems(2) a] have s1: "state_within s1" by simp
  obtain sc s2 where y: "yieldClear (yields (info b1)) c0 s1 = (sc, s2)"
    by (cases "yieldClear (yields (info b1)) c0 s1")
  have s2: "state_within s2" using yieldClear_within [OF s1, of "yields (info b1)" c0] y by simp
  from Cons.IH [OF rest s2] Cons.prems(3) obtain n2 q where
    r: "analyzeStack n2 rest s2 = Some q" by fastforce
  let ?n = "max n1 n2"
  have a': "analyzeStackBlock ?n b s = Some (c0, b1, s1)"
    using belowD [OF below_analyzeStackBlock a, of ?n] by simp
  have r': "analyzeStackWith (analyzeStackBlock ?n) rest s2 = Some q"
    using analyzeStack_mono [OF _ r, of ?n] by (simp add: analyzeStack_def)
  obtain mr rest' s3 where q: "q = (mr, rest', s3)" by (cases q)
  from a' r' y q have "analyzeStack ?n (b # rest) s = Some (sc \<or> mr, recordExit sc s2 b1 # rest', s3)"
    by (simp add: analyzeStack_def)
  then show ?case by blast
qed

lemma doWhile_terminates:
  assumes stacks: "\<And>bs s. size_list size bs = k \<Longrightarrow> list_all block_within bs \<Longrightarrow> state_within s
      \<Longrightarrow> \<exists>n r. analyzeStack n bs s = Some r"
  shows "size_list size bs = k \<Longrightarrow> list_all block_within bs \<Longrightarrow> state_within s
      \<Longrightarrow> \<exists>n r. doWhileWith (analyzeStack n) n bs s = Some r"
proof (induction "slack s" arbitrary: bs s rule: less_induct)
  case less
  from less.prems(3) have cs: "state_within (clone s)" by (simp add: clone_def)
  from stacks [OF less.prems(1,2) cs] obtain n1 m1 bs1 new where
    a: "analyzeStack n1 bs (clone s) = Some (m1, bs1, new)" by fastforce
  from sound_stackD [OF sound_analyzeStack less.prems(2) cs a]
  have bs1: "list_all block_within bs1" "state_within new" "size_list size bs1 = k"
    using less.prems(1) by simp_all
  obtain keep s1 where o: "or_state s new = (keep, s1)" by (cases "or_state s new")
  from or_state_slack [OF less.prems(3) bs1(2) o]
  have s1: "state_within s1" and dec: "keep \<Longrightarrow> slack s1 < slack s" by simp_all
  show ?case
  proof (cases keep)
    case False
    let ?n = "Suc n1"
    have "analyzeStack ?n bs (clone s) = Some (m1, bs1, new)"
      using analyzeStack_mono [OF _ a, of ?n] by simp
    with o False have "doWhileWith (analyzeStack ?n) ?n bs s = Some (False, bs1, s1)" by simp
    then show ?thesis by blast
  next
    case True
    from less.hyps [OF dec [OF True] bs1(3) bs1(1) s1] obtain n2 r where
      d: "doWhileWith (analyzeStack n2) n2 bs1 s1 = Some r" by blast
    let ?n = "Suc (max n1 n2)"
    have a': "analyzeStack ?n bs (clone s) = Some (m1, bs1, new)"
      using analyzeStack_mono [OF _ a, of ?n] by simp
    have bel: "below (analyzeStack n2) (analyzeStack ?n)"
      unfolding below_def using analyzeStack_mono [of n2 ?n] by simp
    have d': "doWhileWith (analyzeStack ?n) (max n1 n2) bs1 s1 = Some r"
      using below_doWhileWith [OF bel d, of "max n1 n2"] by simp
    from a' o True d' have "doWhileWith (analyzeStack ?n) ?n bs s = Some r" by simp
    then show ?thesis by blast
  qed
qed

lemma block_terminates:
  "block_within b \<Longrightarrow> state_within s \<Longrightarrow> \<exists>n r. analyzeStackBlock n b s = Some r"
proof (induction "size b" arbitrary: b s rule: less_induct)
  case less
  have inner: "\<exists>n r. analyzeStack n bs s' = Some r"
    if "size_list size bs < size b" "list_all block_within bs" "state_within s'" for bs s'
  proof (rule stack_terminates [OF _ that(2,3)])
    fix b' s''
    assume b': "b' \<in> set bs" "block_within b'" "state_within s''"
    have "size b' \<le> size_list size bs" using b'(1) by (simp add: size_list_estimation')
    with that(1) have "size b' < size b" by simp
    from less.hyps [OF this b'(2,3)] show "\<exists>n r. analyzeStackBlock n b' s'' = Some r" .
  qed
  have looped: "\<exists>n r. analyzeLoopedStackWith (analyzeStack n) n body s i = Some r"
    if "size_list size body < size b" "list_all block_within body" for body i
  proof (cases "yields i")
    case True
    from inner [OF that clear_within [of s]] obtain n q where
      "analyzeStack n body (snd (clear s)) = Some q" by blast
    with True have "\<exists>r. analyzeLoopedStackWith (analyzeStack n) n body s i = Some r"
      by (auto simp: analyzeLoopedStackWith_def split: prod.splits)
    then show ?thesis by blast
  next
    case False
    have "\<exists>n r. doWhileWith (analyzeStack n) n body s = Some r"
    proof (rule doWhile_terminates [OF _ refl that(2) less.prems(2)])
      fix bs s'
      assume "size_list size bs = size_list size body" "list_all block_within bs" "state_within s'"
      with inner [of bs s'] that(1) show "\<exists>n r. analyzeStack n bs s' = Some r" by simp
    qed
    then obtain n q where "doWhileWith (analyzeStack n) n body s = Some q" by blast
    with False have "\<exists>r. analyzeLoopedStackWith (analyzeStack n) n body s i = Some r"
      by (auto simp: analyzeLoopedStackWith_def split: prod.splits)
    then show ?thesis by blast
  qed
  show ?case
  proof (cases b)
    case (VarSet i name v)
    then have "\<exists>r. analyzeStackBlock (Suc 0) b s = Some r" by (simp split: prod.splits)
    then show ?thesis by blast
  next
    case (ControlWhile i c w body)
    with less.prems(1) looped [of body i] obtain n q where
      "analyzeLoopedStackWith (analyzeStack n) n body s i = Some q" by auto
    with ControlWhile have "\<exists>r. analyzeStackBlock (Suc n) b s = Some r"
      by (auto simp: analyzeStack_def split: prod.splits)
    then show ?thesis by blast
  next
    case (ControlFor i x c body)
    with less.prems(1) looped [of body i] obtain n q where
      "analyzeLoopedStackWith (analyzeStack n) n body s i = Some q" by auto
    with ControlFor have "\<exists>r. analyzeStackBlock (Suc n) b s = Some r"
      by (auto simp: analyzeStack_def split: prod.splits)
    then show ?thesis by blast
  next
    case (ControlRepeat i c body)
    with less.prems(1) looped [of body i] obtain n q where
      "analyzeLoopedStackWith (analyzeStack n) n body s i = Some q" by auto
    with ControlRepeat have "\<exists>r. analyzeStackBlock (Suc n) b s = Some r"
      by (auto simp: analyzeStack_def split: prod.splits)
    then show ?thesis by blast
  next
    case (ControlIfElse i c whenTrue whenFalse)
    from less.prems(2) have cs: "state_within (clone s)" by (simp add: clone_def)
    from ControlIfElse less.prems(1) inner [of whenTrue "clone s"] cs obtain n1 q1 where
      t: "analyzeStack n1 whenTrue (clone s) = Some q1" by auto
    from ControlIfElse less.prems inner [of whenFalse s] obtain n2 q2 where
      f: "analyzeStack n2 whenFalse s = Some q2" by auto
    let ?n = "max n1 n2"
    from analyzeStack_mono [OF _ t, of ?n] analyzeStack_mono [OF _ f, of ?n]
    have "analyzeStackWith (analyzeStackBlock ?n) whenTrue (clone s) = Some q1"
         "analyzeStackWith (analyzeStackBlock ?n) whenFalse s = Some q2"
      by (simp_all add: analyzeStack_def)
    with ControlIfElse have "\<exists>r. analyzeStackBlock (Suc ?n) b s = Some r"
      by (auto split: prod.splits)
    then show ?thesis by blast
  next
    case (ProcedureCall i code variant args)
    then have "\<exists>r. analyzeStackBlock (Suc 0) b s = Some r" by (simp split: prod.splits)
    then show ?thesis by blast
  next
    case (PlainBlock i opc ins)
    then have "analyzeStackBlock (Suc 0) b s = Some (False, b, s)" by simp
    then show ?thesis by blast
  qed
qed

subsection \<open>The rewriter of inputs\<close>

lemma optimizeInput_idem: "optimizeInput (optimizeInput i s) s = optimizeInput i s"
proof (induction i s rule: optimizeInput.induct)
  case (8 opc t ins state)
  then have "map (\<lambda>kv. (fst kv, optimizeInput (snd kv) state))
               (map (\<lambda>kv. (fst kv, optimizeInput (snd kv) state)) ins)
             = map (\<lambda>kv. (fst kv, optimizeInput (snd kv) state)) ins"
    by (induction ins) auto
  then show ?case by (simp add: Let_def)
qed (auto simp: Let_def)

lemma analyze_optimizeInput:
  "no_empty_cast i s \<Longrightarrow> analyzeInputBlock (optimizeInput i s) s = analyzeInputBlock i s"
proof (induction i s rule: optimizeInput.induct)
  case (3 t target state)
  then show ?case by (auto simp: Let_def)
next
  case (4 t target state)
  then show ?case by (auto simp: Let_def)
qed (auto simp: Let_def)

subsection \<open>Exit states\<close>

lemma info_set_info: "info (set_info i b) = i"
  by (cases b) simp_all

lemma analyzeLoopedStackWith_info:
  "analyzeLoopedStackWith A n body s i = Some (m, body', i', s') \<Longrightarrow>
     yields i' = yields i \<and> exitState i' = (if yields i then Some [] else exitState i)"
  by (auto simp: analyzeLoopedStackWith_def clear_def clone_def split: if_splits option.splits)

lemma analyzeStackBlock_exit:
  assumes "analyzeStackBlock n b s = Some (ch, b1, s1)"
  shows "exitState (info b1) = exitBefore b \<and> yields (info b1) = yields (info b)"
proof (cases n)
  case 0
  with assms show ?thesis by simp
next
  case (Suc k)
  show ?thesis
  proof (cases b)
    case (ControlWhile i c w body)
    with assms Suc obtain body' i' where
      "analyzeLoopedStackWith (analyzeStackWith (analyzeStackBlock k)) k body s i = Some (ch, body', i', s1)"
      "b1 = ControlWhile i' c w body'"
      by (auto split: option.splits)
    with analyzeLoopedStackWith_info [OF this(1)] ControlWhile show ?thesis
      by (simp add: exitBefore_def)
  next
    case (ControlFor i x c body)
    with assms Suc obtain body' i' where
      "analyzeLoopedStackWith (analyzeStackWith (analyzeStackBlock k)) k body s i = Some (ch, body', i', s1)"
      "b1 = ControlFor i' x c body'"
      by (auto split: option.splits)
    with analyzeLoopedStackWith_info [OF this(1)] ControlFor show ?thesis
      by (simp add: exitBefore_def)
  next
    case (ControlRepeat i c body)
    with assms Suc obtain body' i' where
      "analyzeLoopedStackWith (analyzeStackWith (analyzeStackBlock k)) k body s i = Some (ch, body', i', s1)"
      "b1 = ControlRepeat i' c body'"
      by (auto split: option.splits)
    with analyzeLoopedStackWith_info [OF this(1)] ControlRepeat show ?thesis
      by (simp add: exitBefore_def)
  qed (use assms Suc in \<open>auto simp: exitBefore_def split: option.splits if_splits prod.splits\<close>)
qed

lemma exit_recorded:
  assumes "analyzeStack n [b] s = Some (m, bs', s')"
  shows "\<exists>b'. bs' = [b'] \<and> exitState (info b') =
           (if m then Some (case exitBefore b of None \<Rightarrow> s' | Some e \<Rightarrow> snd (or_state e s'))
            else exitBefore b)"
proof -
  from assms obtain c0 b1 s1 where a: "analyzeStackBlock n b s = Some (c0, b1, s1)"
    by (auto simp: analyzeStack_def split: option.splits)
  obtain sc s2 where y: "yieldClear (yields (info b1)) c0 s1 = (sc, s2)"
    by (cases "yieldClear (yields (info b1)) c0 s1")
  from assms a y have r: "m = sc" "s' = s2" "bs' = [recordExit sc s2 b1]"
    by (auto simp: analyzeStack_def)
  from analyzeStackBlock_exit [OF a] have e: "exitState (info b1) = exitBefore b" by simp
  show ?thesis
    using r e by (auto simp: recordExit_def info_set_info clone_def split: option.splits)
qed

lemma analyzeStack_Cons:
  assumes "analyzeStack n (b # rest) s = Some (m, bs', s')"
  shows "\<exists>sc b' s2 m' rest'. analyzeStack n [b] s = Some (sc, [b'], s2)
           \<and> analyzeStack n rest s2 = Some (m', rest', s')
           \<and> bs' = b' # rest' \<and> m = (sc \<or> m')"
proof -
  from assms obtain c0 b1 s1 where a: "analyzeStackBlock n b s = Some (c0, b1, s1)"
    by (auto simp: analyzeStack_def split: option.splits)
  obtain sc s2 where y: "yieldClear (yields (info b1)) c0 s1 = (sc, s2)"
    by (cases "yieldClear (yields (info b1)) c0 s1")
  from assms a y obtain m' rest' where
    r: "analyzeStack n rest s2 = Some (m', rest', s')" and
    e: "bs' = recordExit sc s2 b1 # rest'" "m = (sc \<or> m')"
    by (auto simp: analyzeStack_def split: option.splits)
  from a y have "analyzeStack n [b] s = Some (sc, [recordExit sc s2 b1], s2)"
    by (simp add: analyzeStack_def)
  with r e show ?thesis by blast
qed

subsection \<open>Where the generator writes a yield\<close>

lemma containsYield_append [simp]:
  "containsYield (a @ b) = (containsYield a \<or> containsYield b)"
  by (simp add: containsYield_def)

lemma containsYield_Nil [simp]: "containsYield [] = False"
  by (simp add: containsYield_def)

lemma containsYield_Cons [simp]:
  "containsYield (x # xs) = (mentionsYield x \<or> containsYield xs)"
  by (simp add: containsYield_def)

lemma containsYield_Exprs [simp]: "containsYield (map Expr ins) = list_ex inputYields ins"
  by (induction ins) simp_all

lemmas yield_text_eval = sublist_code(3) prefix_code(2)

lemma yielded_refused: "\<not> scriptYields script \<Longrightarrow> yielded script source = Inl ScriptYielded"
  by (simp add: yielded_def)

lemma yieldNotWarp_silent:
  "\<not> scriptYields script \<Longrightarrow> yieldNotWarp script source = Inr source' \<Longrightarrow> source' = source"
  by (auto simp: yieldNotWarp_def yielded_def split: if_splits)

lemma yieldStuckOrNotWarp_refused:
  "\<not> scriptYields script \<Longrightarrow> yieldStuckOrNotWarp script source = Inl ScriptYielded"
  by (simp add: yieldStuckOrNotWarp_def yielded_def)

lemma yieldLoop_silent:
  "\<not> scriptYields script \<Longrightarrow> yieldLoop script source = Inr source' \<Longrightarrow> source' = source"
  by (auto simp: yieldLoop_def yieldStuckOrNotWarp_refused dest: yieldNotWarp_silent split: if_splits)

lemma andThen_Inr:
  "andThen r f = Inr y \<Longrightarrow> \<exists>x. r = Inr x \<and> f x = Inr y"
  by (cases r) (simp_all add: andThen_def)

lemma descendPlain_quiet:
  assumes "\<not> scriptYields script" "descendPlain script frames opc ins source = Inr source'"
    "\<not> uncheckedPlain script opc" "\<not> list_ex inputYields ins" "\<not> containsYield source"
  shows "\<not> containsYield source'"
proof (cases opc)
  case CONTROL_WAIT
  with assms show ?thesis
    by (auto simp: descendPlain_def yieldStuckOrNotWarp_refused andThen_def split: sum.splits)
next
  case CONTROL_WAIT_UNTIL
  with assms show ?thesis
    by (auto simp: descendPlain_def yieldStuckOrNotWarp_refused andThen_def split: sum.splits)
next
  case EVENT_BROADCAST_AND_WAIT
  with assms show ?thesis
    by (auto simp: descendPlain_def yielded_refused)
qed (use assms in \<open>auto simp: descendPlain_def retire_def yield_text_eval split: if_splits\<close>)

lemma descendProcedureCall_quiet:
  assumes "\<not> scriptYields script"
    "descendProcedureCall script procedures code variant args source = Inr source'"
    "\<not> list_ex inputYields args" "\<not> containsYield source"
  shows "\<not> containsYield source'"
proof -
  from assms(2) obtain procedureData where p: "map_of procedures variant = Some procedureData"
    by (auto simp: descendProcedureCall_def split: option.splits)
  show ?thesis
  proof (cases "stack procedureData = None")
    case True
    with assms p show ?thesis by (simp add: descendProcedureCall_def)
  next
    case False
    with assms(2) p obtain source1 source2 where
      s1: "(if \<not> isWarp script \<and> code = procedureCode script
            then yieldNotWarp script source else Inr source) = Inr source1" and
      s2: "(if scriptYields procedureData
            then (if \<not> scriptYields script then Inl YieldingProcedure
                  else Inr (source1 @ [Text ''yield* '']))
            else Inr source1) = Inr source2" and
      s3: "source' = source2 @ [Text ''thread.procedures['', Name, Text ''](''] 
                             @ (if arguments procedureData \<noteq> [] then map Expr args else [])
                             @ [Text '');\<newline>'']"
      by (auto simp: descendProcedureCall_def dest!: andThen_Inr)
    from s1 assms(1) have "source1 = source"
      by (auto dest: yieldNotWarp_silent split: if_splits)
    moreover from s2 assms(1) have "source2 = source1" by (auto split: if_splits)
    ultimately show ?thesis using s3 assms(3,4) by (simp add: yield_text_eval)
  qed
qed

lemma descend_quiet:
  shows "\<not> scriptYields script \<Longrightarrow>
         descendStackedBlock script procedures frames block source = Inr source' \<Longrightarrow>
           \<not> uncheckedYield script block \<Longrightarrow> \<not> containsYield source \<Longrightarrow> \<not> containsYield source'"
    and "\<not> scriptYields script \<Longrightarrow>
         descendStack script procedures isLoop frames blocks source = Inr source' \<Longrightarrow>
           \<not> list_ex (uncheckedYield script) blocks \<Longrightarrow> \<not> containsYield source \<Longrightarrow> \<not> containsYield source'"
proof (induction script procedures frames block source and script procedures isLoop frames blocks source
    arbitrary: source' and source' rule: descendStackedBlock_descendStack.induct)
  case (1 script procedures frames i name v source)
  note ns = "1.prems"(1)
  from "1.prems" show ?case by (auto simp: yield_text_eval)
next
  case (2 script procedures frames i c w body source)
  note ns = "2.prems"(1)
  from "2.prems"(2) obtain source1 source2 where
    b: "descendStack script procedures True frames body
          (source @ [Text ''while ('', Expr c, Text '') {\<newline>'']) = Inr source1" and
    y: "(if w then yieldStuckOrNotWarp script source1 else yieldLoop script source1) = Inr source2" and
    r: "source' = source2 @ [Text ''}\<newline>'']"
    by (auto dest!: andThen_Inr)
  have "\<not> containsYield source1"
    using "2.IH" [OF ns b] "2.prems"(3,4) by (simp add: yield_text_eval)
  moreover have "source2 = source1"
    using y ns by (auto simp: yieldStuckOrNotWarp_refused dest: yieldLoop_silent split: if_splits)
  ultimately show ?case using r by (simp add: yield_text_eval)
next
  case (3 script procedures frames i x c body source)
  note ns = "3.prems"(1)
  from "3.prems"(2) obtain source1 source2 where
    b: "descendStack script procedures True frames body
          (source @ [Text ''var '', Name, Text '' = 0; '', Text ''while ('', Name, Text '' < '',
                           Expr c, Text '') { '', Name, Text ''++; '', Name, Text ''.value = '', Name,
                           Text '';\<newline>'']) = Inr source1" and
    y: "yieldLoop script source1 = Inr source2" and
    r: "source' = source2 @ [Text ''}\<newline>'']"
    by (auto dest!: andThen_Inr)
  have "\<not> containsYield source1"
    using "3.IH" [OF ns b] "3.prems"(3,4) by (simp add: yield_text_eval)
  moreover have "source2 = source1"
    using y ns by (auto dest: yieldLoop_silent)
  ultimately show ?case using r by (simp add: yield_text_eval)
next
  case (4 script procedures frames i c body source)
  note ns = "4.prems"(1)
  from "4.prems"(2) obtain source1 source2 where
    b: "descendStack script procedures True frames body
          (source @ [Text ''for (var '', Name, Text '' = '', Expr c, Text ''; '', Name,
                           Text '' >= 0.5; '', Name, Text ''--) {\<newline>'']) = Inr source1" and
    y: "yieldLoop script source1 = Inr source2" and
    r: "source' = source2 @ [Text ''}\<newline>'']"
    by (auto dest!: andThen_Inr)
  have "\<not> containsYield source1"
    using "4.IH" [OF ns b] "4.prems"(3,4) by (simp add: yield_text_eval)
  moreover have "source2 = source1"
    using y ns by (auto dest: yieldLoop_silent)
  ultimately show ?case using r by (simp add: yield_text_eval)
next
  case (5 script procedures frames i c whenTrue whenFalse source)
  note ns = "5.prems"(1)
  from "5.prems"(2) obtain source1 source2 where
    t: "descendStack script procedures False frames whenTrue
          (source @ [Text ''if ('', Expr c, Text '') {\<newline>'']) = Inr source1" and
    f: "(if whenFalse \<noteq> []
         then descendStack script procedures False frames whenFalse
                (source1 @ [Text ''} else {\<newline>''])
         else Inr source1) = Inr source2" and
    r: "source' = source2 @ [Text ''}\<newline>'']"
    by (auto dest!: andThen_Inr)
  have s1: "\<not> containsYield source1"
    using "5.IH"(1) [OF ns t] "5.prems"(3,4) by (simp add: yield_text_eval)
  have "\<not> containsYield source2"
  proof (cases "whenFalse = []")
    case True
    with f s1 show ?thesis by simp
  next
    case False
    with f have "descendStack script procedures False frames whenFalse
                (source1 @ [Text ''} else {\<newline>'']) = Inr source2" by simp
    from "5.IH"(2) [OF t False ns this] "5.prems"(3) s1 show ?thesis by (simp add: yield_text_eval)
  qed
  then show ?case using r by (simp add: yield_text_eval)
next
  case (6 script procedures frames i code variant args source)
  note ns = "6.prems"(1)
  from "6.prems" show ?case using descendProcedureCall_quiet [OF ns] by auto
next
  case (7 script procedures frames i opc ins source)
  note ns = "7.prems"(1)
  from "7.prems" show ?case using descendPlain_quiet [OF ns] by auto
next
  case (8 script procedures isLoop frames source)
  note ns = "8.prems"(1)
  from "8.prems" show ?case by simp
next
  case (9 script procedures isLoop frames block rest source)
  note ns = "9.prems"(1)
  from "9.prems"(2) obtain source1 where
    b: "descendStackedBlock script procedures ((isLoop, rest = []) # frames) block source = Inr source1" and
    r: "descendStack script procedures isLoop frames rest source1 = Inr source'"
    by (auto dest!: andThen_Inr)
  from "9.IH"(1) [OF ns b] "9.prems"(3,4) have "\<not> containsYield source1" by simp
  from "9.IH"(2) [OF b ns r] "9.prems"(3) this show ?case by simp
qed

lemma example_parse: "digitsToNumber ''010'' = Fin 10"
  by (simp add: digitsToNumber_def is_digit_def digits_value_def)

lemma example_print: "natToDigits 20 10 = ''10''"
  by code_simp

subsection \<open>Branches\<close>

text \<open>
  Claim C4: after a \<open>CONTROL_IF_ELSE\<close> block the analyzer always joins the state of the
  true branch into the state, whether or not the false branch changed it.  The source
  writes \<open>modified ||= state.or(trueState)\<close>, which skips the join once the false branch
  has changed the state.  For \<open>if p then set a to 1 else set b to 1\<close> from the empty state
  the analyzer ends with \<open>b\<close> typed \<open>NUMBER_POS\<close> and the true branch ignored, where the
  join gives \<open>ANY\<close> for both variables.
\<close>

theorem ifElse_join_skipped:
  "analyzeStackBlock (Suc (Suc (Suc 0))) branchBlock []
     = Some (True,
         ControlIfElse (fresh False) (VarGet ANY ''p'')
           [VarSet ((fresh False)\<lparr>exitState := Some [(''a'', NUMBER_POS)]\<rparr>) ''a'' (literal (Fin 1))]
           [VarSet ((fresh False)\<lparr>exitState := Some [(''b'', NUMBER_POS)]\<rparr>) ''b'' (literal (Fin 1))],
         [(''b'', NUMBER_POS)])
   \<and> or_state [(''b'', NUMBER_POS)] [(''a'', NUMBER_POS)] = (True, [(''b'', ANY), (''a'', ANY)])"
  by (simp add: branchBlock_def literal_def getNumberInputType_def setVariableType_def getVariableType_def
       yieldClear_def recordExit_def fresh_def clone_def or_state_def or_missing_def other_lacks_def
       InputType_defs)

subsection \<open>Cast elimination\<close>

text \<open>
  Claim C5 reads: \<open>optimizeInput\<close> drops the cast \<open>CAST_T(x)\<close> when the analyzed type of
  \<open>x\<close> is inside \<open>T\<close> and leaves it otherwise.  Take for \<open>x\<close> the node
  \<open>CAST_NUMBER_OR_NAN((0 / 0) + (0 / 0))\<close>: its analyzed type is \<open>NUMBER_OR_NAN\<close>, which is
  not inside \<open>NUMBER\<close>, and yet \<open>optimizeInput\<close> drops the \<open>CAST_NUMBER\<close> around it, because
  it tests the operand after rewriting it, and the rewritten operand has the empty type.
\<close>

theorem optimizeInput_drops_cast_of_wider_operand:
  "analyzeInputBlock (Cast CAST_NUMBER_OR_NAN NUMBER_OR_NAN nanPlusNan) [] = NUMBER_OR_NAN
   \<and> NUMBER_OR_NAN AND NUMBER \<noteq> NUMBER_OR_NAN
   \<and> optimizeInput (Cast CAST_NUMBER NUMBER (Cast CAST_NUMBER_OR_NAN NUMBER_OR_NAN nanPlusNan)) []
       = Arith OP_ADD 0 (set_type NUMBER_NAN zeroByZero) (set_type NUMBER_NAN zeroByZero)"
  by (simp add: nanPlusNan_def zeroByZero_def literal_def getNumberInputType_def analyzeAdd_def
       analyzeDivide_def has_def bits_if_def InputType_defs)

text \<open>
  Claim C5, amended: for \<open>T\<close> in \<open>NUMBER\<close>, \<open>NUMBER_OR_NAN\<close>, \<open>optimizeInput\<close> first rewrites
  the operand \<open>x\<close> of \<open>CAST_T(x)\<close> to \<open>x'\<close>; it returns \<open>x'\<close> in place of the cast when the
  analyzed type of \<open>x'\<close> is inside \<open>T\<close>, and the cast around \<open>x'\<close> otherwise.  The analyzed
  types of \<open>x'\<close> and \<open>x\<close> agree when no numeric cast inside \<open>x\<close> has an operand of the
  empty type.  Rewriting the result again changes nothing.
\<close>

theorem optimizeInput_cast:
  assumes "c = CAST_NUMBER \<and> T = NUMBER \<or> c = CAST_NUMBER_OR_NAN \<and> T = NUMBER_OR_NAN"
  shows "optimizeInput (Cast c t x) s =
           (if analyzeInputBlock (optimizeInput x s) s AND T = analyzeInputBlock (optimizeInput x s) s
            then optimizeInput x s else Cast c t (optimizeInput x s))
         \<and> (no_empty_cast x s \<longrightarrow> analyzeInputBlock (optimizeInput x s) s = analyzeInputBlock x s)
         \<and> optimizeInput (optimizeInput (Cast c t x) s) s = optimizeInput (Cast c t x) s"
  using assms by (auto simp: Let_def optimizeInput_idem analyze_optimizeInput)

theorem optimizeInput_cast_witness:
  "optimizeInput (Cast CAST_NUMBER NUMBER (VarGet ANY ''y'')) [(''y'', NUMBER_POS)] = VarGet NUMBER_POS ''y''
   \<and> optimizeInput (Cast CAST_NUMBER NUMBER (VarGet ANY ''y'')) [(''y'', STRING OR NUMBER_POS)]
       = Cast CAST_NUMBER NUMBER (VarGet (STRING OR NUMBER_POS) ''y'')"
  using optimizeInput_cast [where c = CAST_NUMBER and T = NUMBER and t = NUMBER and x = "VarGet ANY ''y''" and s = "[(''y'', NUMBER_POS)]"]
        optimizeInput_cast [where c = CAST_NUMBER and T = NUMBER and t = NUMBER and x = "VarGet ANY ''y''" and s = "[(''y'', STRING OR NUMBER_POS)]"]
  by (simp add: getVariableType_def InputType_defs)

subsection \<open>Termination of the analyzer\<close>

text \<open>
  Claim C6: the analyzer's fixed-point computation terminates.  For every stack and state
  whose types are lattice elements there is an amount of fuel from which on
  \<open>analyzeStack\<close> returns one and the same result: the \<open>do ... while\<close> of a loop block
  that does not yield runs finitely often, since every round that changes the state uses
  up slack.  For a loop block whose \<open>yields\<close> flag is set, \<open>analyzeLoopedStack\<close> clears
  the state, records the cleared state as the block's entry (and exit) state, and
  analyzes the body once, from the cleared state.
\<close>

theorem analyzer_terminates:
  assumes "list_all block_within blocks" "state_within state"
  shows "(\<exists>n r. \<forall>n' \<ge> n. analyzeStack n' blocks state = Some r)
       \<and> (\<forall>n body i. yields i \<longrightarrow> analyzeLoopedStack n body state i =
            (case analyzeStack n body [] of
               None \<Rightarrow> None
             | Some (m, body', state') \<Rightarrow>
                 Some (m \<or> fst (clear state), body',
                       i\<lparr>entryState := Some [], exitState := Some []\<rparr>, state')))"
proof -
  from stack_terminates [OF block_terminates assms] obtain n r where
    "analyzeStack n blocks state = Some r" by blast
  then have "\<forall>n' \<ge> n. analyzeStack n' blocks state = Some r"
    using analyzeStack_mono by blast
  moreover have "analyzeLoopedStack n body state i =
            (case analyzeStack n body [] of
               None \<Rightarrow> None
             | Some (m, body', state') \<Rightarrow>
                 Some (m \<or> fst (clear state), body',
                       i\<lparr>entryState := Some [], exitState := Some []\<rparr>, state'))"
    if "yields i" for n body i
    using that
    by (auto simp: analyzeLoopedStack_def analyzeLoopedStackWith_def clear_def clone_def
        split: option.splits)
  ultimately show ?thesis by blast
qed

theorem analyzer_terminates_witness:
  "list_all block_within [countingLoop] \<and> state_within [(''y'', STRING)]
   \<and> (\<exists>n r. \<forall>n' \<ge> n. analyzeStack n' [countingLoop] [(''y'', STRING)] = Some r)"
  using analyzer_terminates [of "[countingLoop]" "[(''y'', STRING)]"]
  by (simp add: countingLoop_def literal_def getNumberInputType_def state_within_def in_lattice_def
      InputType_defs)

subsection \<open>Recording exit states\<close>

text \<open>
  Claim C9 reads: every block the analyzer visits gets an \<open>exitState\<close>.  A block that
  changes nothing, such as a \<open>NOP\<close>, gets none: \<open>analyzeStack\<close> writes the annotation
  only under \<open>if (stateChanged)\<close>.
\<close>

theorem exitState_absent_without_change:
  "analyzeStack (Suc 0) [PlainBlock (fresh False) NOP []] []
     = Some (False, [PlainBlock (fresh False) NOP []], [])
   \<and> exitState (info (PlainBlock (fresh False) NOP [])) = None"
  by (simp add: analyzeStack_def yieldClear_def recordExit_def fresh_def)

text \<open>
  Claim C9, amended: \<open>analyzeStack\<close> returns on a block.  A yielding loop block always
  ends with an \<open>exitState\<close>: \<open>analyzeLoopedStack\<close> overwrites whatever annotation the
  block had with the cleared state, and \<open>analyzeStack\<close> joins the state after the block
  into it by \<open>or\<close> when it reports a change.  For every other block \<open>analyzeStack\<close>
  writes the \<open>exitState\<close> exactly when it reports that the block changed the state: then
  the annotation becomes the state after the block, joined by \<open>or\<close> into the annotation
  the block had, or that state itself when it had none; when no change is reported the
  annotation stays as it was.  On a longer stack the first block is treated as on its
  own, and the rest of the stack is analyzed from the state the first block leaves.
\<close>

theorem exitState_recorded_on_change:
  assumes "block_within b" "state_within s"
  shows "(\<exists>n r. analyzeStack n [b] s = Some r)
       \<and> (\<forall>n m bs' s'. analyzeStack n [b] s = Some (m, bs', s') \<longrightarrow>
            (\<exists>b'. bs' = [b'] \<and> exitState (info b') =
               (if is_loop b \<and> yields (info b)
                then Some (if m then snd (or_state [] s') else [])
                else if m
                then Some (case exitState (info b) of None \<Rightarrow> s' | Some e \<Rightarrow> snd (or_state e s'))
                else exitState (info b))))
       \<and> (\<forall>n rest m bs' s'. analyzeStack n (b # rest) s = Some (m, bs', s') \<longrightarrow>
            (\<exists>sc b' s2 m' rest'. analyzeStack n [b] s = Some (sc, [b'], s2)
               \<and> analyzeStack n rest s2 = Some (m', rest', s')
               \<and> bs' = b' # rest' \<and> m = (sc \<or> m')))"
proof -
  have "list_all block_within [b]" using assms(1) by simp
  from stack_terminates [OF block_terminates this assms(2)]
  have t: "\<exists>n r. analyzeStack n [b] s = Some r" .
  have e: "\<exists>b'. bs' = [b'] \<and> exitState (info b') =
               (if is_loop b \<and> yields (info b)
                then Some (if m then snd (or_state [] s') else [])
                else if m
                then Some (case exitState (info b) of None \<Rightarrow> s' | Some e \<Rightarrow> snd (or_state e s'))
                else exitState (info b))"
    if "analyzeStack n [b] s = Some (m, bs', s')" for n m bs' s'
    using exit_recorded [OF that] by (auto simp: exitBefore_def)
  from t e analyzeStack_Cons show ?thesis by blast
qed

theorem exitState_recorded_on_change_witness:
  "block_within (VarSet (fresh False) ''x'' (literal (Fin 3))) \<and> state_within []
   \<and> (\<exists>n r. analyzeStack n [VarSet (fresh False) ''x'' (literal (Fin 3))] [] = Some r)
   \<and> analyzeStack (Suc 0) [VarSet (fresh False) ''x'' (literal (Fin 3))] []
       = Some (True, [VarSet ((fresh False)\<lparr>exitState := Some [(''x'', NUMBER_POS)]\<rparr>) ''x'' (literal (Fin 3))],
               [(''x'', NUMBER_POS)])"
  using exitState_recorded_on_change [of "VarSet (fresh False) ''x'' (literal (Fin 3))" "[]"]
  by (simp add: analyzeStack_def literal_def getNumberInputType_def state_within_def in_lattice_def
      setVariableType_def getVariableType_def yieldClear_def recordExit_def fresh_def clone_def
      InputType_defs)

text \<open>
  A yielding loop block on which no change is reported: the annotation it came with is
  replaced by the cleared state, which \<open>analyzeLoopedStack\<close> writes as entry and as exit
  state before it analyzes the body.
\<close>

lemma yielding_loop_exitState_reset:
  "analyzeStack (Suc (Suc 0))
     [ControlRepeat \<lparr>yields = True, entryState = None, exitState = Some [(''k'', NUMBER_POS)]\<rparr>
        (literal (Fin 3)) []] []
   = Some (False,
       [ControlRepeat \<lparr>yields = True, entryState = Some [], exitState = Some []\<rparr>
          (literal (Fin 3)) []], [])"
  by (simp add: analyzeStack_def analyzeLoopedStackWith_def yieldClear_def
      recordExit_def clear_def clone_def)

subsection \<open>Yields and the \<open>yields\<close> flag\<close>

text \<open>
  Claim C7 reads: the body of the generated function contains a yield if and only if
  \<open>script.yields\<close> is true.  The flag says that the script may yield, not that it does:
  the empty script, flagged as yielding, compiles to a generator whose body is
  \<open>retire();\<close>.
\<close>

theorem yielding_script_without_yield:
  "scriptYields emptyScript
   \<and> compile emptyScript []
       = Inr \<lparr> isGenerator = True, functionBody = [Text ''retire();\<newline>''] \<rparr>
   \<and> \<not> containsYield [Text ''retire();\<newline>'']"
  by (simp add: emptyScript_def compile_def andThen_def yield_text_eval)

text \<open>
  Claim C7, amended: when a script that is not marked as yielding compiles, and it has
  no addon call, no compatibility-layer call or input and no \<open>retire\<close> inside a
  procedure, then its body contains no yield and it is compiled as a plain function:
  the yields written by \<open>yieldNotWarp\<close>, \<open>yieldStuckOrNotWarp\<close>, broadcast-and-wait and the
  call of a yielding procedure raise an error instead.
\<close>

theorem checked_yields_need_flag:
  assumes "\<not> scriptYields script" "compile script procedures = Inr result"
    "case stack script of None \<Rightarrow> True | Some blocks \<Rightarrow> \<not> list_ex (uncheckedYield script) blocks"
  shows "\<not> containsYield (functionBody result) \<and> \<not> isGenerator result"
proof -
  from assms(2) obtain source where
    s: "(case stack script of None \<Rightarrow> Inr []
         | Some blocks \<Rightarrow> descendStack script procedures False [] blocks []) = Inr source"
    and r: "result = \<lparr> isGenerator = scriptYields script,
                functionBody = source @ (if \<not> isProcedure script then [Text ''retire();\<newline>''] else []) \<rparr>"
    by (auto simp: compile_def dest!: andThen_Inr)
  have "\<not> containsYield source"
  proof (cases "stack script")
    case None
    with s show ?thesis by auto
  next
    case (Some blocks)
    with s have "descendStack script procedures False [] blocks [] = Inr source" by simp
    from descend_quiet(2) [OF assms(1) this] assms(3) Some show ?thesis by simp
  qed
  with r assms(1) show ?thesis by (simp add: yield_text_eval)
qed

theorem checked_yields_need_flag_witness:
  "\<not> scriptYields warpProcedure
   \<and> compile warpProcedure []
       = Inr \<lparr> isGenerator = False,
               functionBody =
                 [Text ''for (var '', Name, Text '' = '', Expr (Constant NUMBER_POS (JNum (Fin 10))),
                  Text ''; '', Name, Text '' >= 0.5; '', Name, Text ''--) {\<newline>'',
                  Name, Text ''.value = '', Expr (Constant NUMBER_POS (JNum (Fin 1))), Text '';\<newline>'',
                  Text ''}\<newline>''] \<rparr>
   \<and> \<not> containsYield (functionBody (projr (compile warpProcedure [])))"
  using checked_yields_need_flag [of warpProcedure "[]" "projr (compile warpProcedure [])"]
  by (simp add: warpProcedure_def compile_def andThen_def yieldLoop_def yieldNotWarp_def)

text \<open>
  \<open>retire\<close> inside a procedure is not checked: a procedure that is not marked as
  yielding and stops all scripts compiles, with \<open>yield\<close> in its body.
\<close>

lemma retire_in_procedure_unchecked:
  "\<not> scriptYields stoppingProcedure
   \<and> compile stoppingProcedure []
       = Inr \<lparr> isGenerator = False,
               functionBody = [Text ''runtime.stopAll();\<newline>'', Text ''retire(); yield;\<newline>''] \<rparr>
   \<and> containsYield [Text ''runtime.stopAll();\<newline>'', Text ''retire(); yield;\<newline>'']"
  by (simp add: stoppingProcedure_def compile_def andThen_def descendPlain_def retire_def yield_text_eval)

subsection \<open>Safe constants for equality\<close>

text \<open>
  Claim C8 reads: a constant is safe for the \<open>===\<close> optimization exactly when it is
  non-zero and the string form of its numeric value equals the literal.  In \<open>jsgen.js\<close>
  the constant \<open>010\<close> of type \<open>STRING_NUM\<close> is safe, although its numeric value prints as
  \<open>10\<close>, and the equality with a variable is lowered by the safe-constant rule.
\<close>

theorem leading_zero_constant_is_safe:
  "isSafeInputForEqualsOptimization exampleHost (Constant STRING_NUM (JStr ''010''))
   \<and> numberToString exampleHost (toNumber exampleHost (JStr ''010'')) = ''10''
   \<and> \<not> isSafeConstantForEqualsOptimization exampleHost (JStr ''010'')
   \<and> equalsRule exampleHost (NUMBER OR STRING_NUM OR BOOLEAN)
        (Constant STRING_NUM (JStr ''010'')) (VarGet ANY ''x'') = SafeConstant"
  by (simp add: isSafeInputForEqualsOptimization_def isSafeConstantForEqualsOptimization_def
      equalsRule_def isAlwaysType_def exampleHost_def example_parse example_print InputType_defs)

text \<open>
  Claim C8, amended: in \<open>jsgen.js\<close> an operand is safe exactly when it is a constant whose
  type is always \<open>NUMBER\<close> or always \<open>STRING_NUM\<close> and whose numeric value is not \<open>=== 0\<close>,
  and whenever an operand is safe the equality is lowered to \<open>===\<close> on numeric coercions.
  The round-trip criterion (numeric value truthy, and its string form equal to the
  literal's) is that of the older generator, where the safe-constant rule fires only for
  a constant that meets it.
\<close>

theorem safe_constant_criteria:
  "(isSafeInputForEqualsOptimization h input \<longleftrightarrow>
      (\<exists>t v. input = Constant t v \<and> (t AND NUMBER = t \<or> t AND STRING_NUM = t)
             \<and> js_strict_ne_zero (toNumber h v)))
   \<and> (isSafeInputForEqualsOptimization h left \<or> isSafeInputForEqualsOptimization h right
        \<longrightarrow> strictNumericEquals (equalsRule h numberInterpretable left right))
   \<and> (isSafeConstantForEqualsOptimization h v \<longleftrightarrow>
        js_truthy_num (toNumber h v) \<and> numberToString h (toNumber h v) = valueToString h v)
   \<and> (oldEqualsRule h l r = SafeConstant \<longrightarrow>
        (\<exists>c. (l = ConstantInput c \<or> r = ConstantInput c) \<and> js_truthy_num (toNumber h c)
             \<and> numberToString h (toNumber h c) = valueToString h c))"
proof -
  have new: "isSafeInputForEqualsOptimization h input \<longleftrightarrow>
      (\<exists>t v. input = Constant t v \<and> (t AND NUMBER = t \<or> t AND STRING_NUM = t)
             \<and> js_strict_ne_zero (toNumber h v))"
    by (cases input) (auto simp: isSafeInputForEqualsOptimization_def isAlwaysType_def)
  have lowered: "strictNumericEquals (equalsRule h numberInterpretable left right)"
    if "isSafeInputForEqualsOptimization h left \<or> isSafeInputForEqualsOptimization h right"
    using that by (simp add: equalsRule_def)
  have old: "isSafeConstantForEqualsOptimization h v \<longleftrightarrow>
        js_truthy_num (toNumber h v) \<and> numberToString h (toNumber h v) = valueToString h v"
    by (simp add: isSafeConstantForEqualsOptimization_def Let_def)
  have safe: "\<exists>c. i = ConstantInput c \<and> js_truthy_num (toNumber h c)
             \<and> numberToString h (toNumber h c) = valueToString h c"
    if "isSafeConstant h i" for i
    using that by (cases i) (auto simp: isSafeConstantForEqualsOptimization_def Let_def split: if_splits)
  have rule: "\<exists>c. (l = ConstantInput c \<or> r = ConstantInput c) \<and> js_truthy_num (toNumber h c)
             \<and> numberToString h (toNumber h c) = valueToString h c"
    if "oldEqualsRule h l r = SafeConstant"
  proof -
    from that have "isSafeConstant h l \<or> isSafeConstant h r"
      by (auto simp: oldEqualsRule_def split: if_splits)
    with safe [of l] safe [of r] show ?thesis by blast
  qed
  from new lowered old rule show ?thesis by blast
qed

theorem safe_constant_criteria_witness:
  "isSafeInputForEqualsOptimization exampleHost (Constant NUMBER_POS (JNum (Fin 10)))
   \<and> strictNumericEquals (equalsRule exampleHost (NUMBER OR STRING_NUM OR BOOLEAN)
        (Constant NUMBER_POS (JNum (Fin 10))) (VarGet ANY ''x''))
   \<and> oldEqualsRule exampleHost (ConstantInput (JStr ''10'')) (VariableInput None) = SafeConstant
   \<and> oldEqualsRule exampleHost (ConstantInput (JStr ''010'')) (VariableInput None) = Fallback"
  using safe_constant_criteria [where h = exampleHost and input = "Constant NUMBER_POS (JNum (Fin 10))"
      and left = "Constant NUMBER_POS (JNum (Fin 10))" and right = "VarGet ANY ''x''"
      and numberInterpretable = "NUMBER OR STRING_NUM OR BOOLEAN"
      and v = "JStr ''10''" and l = "ConstantInput (JStr ''10'')" and r = "VariableInput None"]
  by (simp add: oldEqualsRule_def isSafeConstantForEqualsOptimization_def exampleHost_def
      digitsToNumber_def is_digit_def digits_value_def example_print InputType_defs)

end
